theory Spec2Isabelle
  imports Complex_Main "HOL-Library.AList" "HOL-Library.Sublist" "HOL-Library.Multiset"
begin

section \<open>Python values\<close>

text \<open>
  Property values are dynamically typed. The universe below holds the values the validators
  of \<^verbatim>\<open>entities/base.py\<close> and \<^verbatim>\<open>entities/event.py\<close> distinguish:
  \<^verbatim>\<open>None\<close>, \<^verbatim>\<open>bool\<close>, \<^verbatim>\<open>int\<close> (unbounded), \<^verbatim>\<open>float\<close>,
  \<^verbatim>\<open>str\<close>, \<^verbatim>\<open>datetime\<close>, and any other object (a list, a dict), of which only its
  truth value and its \<^verbatim>\<open>str()\<close> matter and for which \<^verbatim>\<open>int()\<close> and
  \<^verbatim>\<open>float()\<close> raise \<^verbatim>\<open>TypeError\<close>. A string is a sequence of code points below 256,
  the characters of HOL; what the library says of a character (white space, digit, letter,
  lower case) is given for these code points.
\<close>

datatype pyfloat = Finite rat | PosInf | NegInf | NaN

text \<open>A \<^verbatim>\<open>datetime\<close> object: year, month, day, hour, minute, second.\<close>

datatype datetime = DateTime nat nat nat nat nat nat

datatype pyval =
    PNone
  | PBool bool
  | PInt int
  | PFloat pyfloat
  | PStr string
  | PDateTime datetime
  | POther bool string

datatype ptype = TStr | TInt | TFloat | TBool

text \<open>
  The library functions whose result is fixed by IEEE rounding or by the grammar of numeric
  literals are parameters of the model: \<^verbatim>\<open>repr\<close> of a float, \<^verbatim>\<open>int(s)\<close> and
  \<^verbatim>\<open>float(s)\<close> on a string (\<open>None\<close>: \<^verbatim>\<open>ValueError\<close>), and \<^verbatim>\<open>float(i)\<close> on
  an int (\<open>None\<close>: \<^verbatim>\<open>OverflowError\<close>).
\<close>

record builtins =
  float_repr :: "pyfloat \<Rightarrow> string"
  int_of_str :: "string \<Rightarrow> int option"
  float_of_str :: "string \<Rightarrow> pyfloat option"
  float_of_int :: "int \<Rightarrow> pyfloat option"

subsection \<open>Decimal digits\<close>

definition digit_char :: "nat \<Rightarrow> char" where
  "digit_char n = ''0123456789'' ! (n mod 10)"

definition digit_val :: "char \<Rightarrow> nat option" where
  "digit_val c = map_of (zip ''0123456789'' [0, 1, 2, 3, 4, 5, 6, 7, 8, 9]) c"

definition pad2 :: "nat \<Rightarrow> string" where
  "pad2 n = [digit_char (n div 10), digit_char n]"

definition pad4 :: "nat \<Rightarrow> string" where
  "pad4 n = [digit_char (n div 1000), digit_char (n div 100), digit_char (n div 10), digit_char n]"

function str_of_nat :: "nat \<Rightarrow> string" where
  "str_of_nat n = (if n < 10 then [digit_char n] else str_of_nat (n div 10) @ [digit_char n])"
  by pat_completeness auto
termination
  by (relation "measure id") auto

declare str_of_nat.simps [simp del]

definition str_of_int :: "int \<Rightarrow> string" where
  "str_of_int i = (if i < 0 then CHR ''-'' # str_of_nat (nat (- i)) else str_of_nat (nat i))"

subsection \<open>datetime: strftime and strptime\<close>

text \<open>
  \<^verbatim>\<open>dt.strftime("%Y-%m-%d %H:%M")\<close>. CPython hands \<^verbatim>\<open>%Y\<close> to the C library, and glibc
  writes the year without leading zeros: \<^verbatim>\<open>datetime(999, 1, 5, 9, 5)\<close> gives
  \<^verbatim>\<open>'999-01-05 09:05'\<close>. The other fields have two digits.
\<close>

fun strftime :: "datetime \<Rightarrow> string" where
  "strftime (DateTime y m d H M S) =
     str_of_nat y @ ''-'' @ pad2 m @ ''-'' @ pad2 d @ '' '' @ pad2 H @ '':'' @ pad2 M"

fun year :: "datetime \<Rightarrow> nat" where
  "year (DateTime y m d H M S) = y"

text \<open>\<^verbatim>\<open>str(dt)\<close>: the ISO format with a space as separator, the year on four digits.\<close>

fun str_of_datetime :: "datetime \<Rightarrow> string" where
  "str_of_datetime (DateTime y m d H M S) =
     pad4 y @ ''-'' @ pad2 m @ ''-'' @ pad2 d @ '' '' @ pad2 H @ '':'' @ pad2 M @ '':'' @ pad2 S"

definition is_leap :: "nat \<Rightarrow> bool" where
  "is_leap y = (y mod 4 = 0 \<and> (y mod 100 \<noteq> 0 \<or> y mod 400 = 0))"

definition days_in_month :: "nat \<Rightarrow> nat \<Rightarrow> nat" where
  "days_in_month y m =
     (if m = 2 then (if is_leap y then 29 else 28)
      else if m = 4 \<or> m = 6 \<or> m = 9 \<or> m = 11 then 30 else 31)"

text \<open>The values the \<^verbatim>\<open>datetime\<close> constructor accepts (it raises \<^verbatim>\<open>ValueError\<close> otherwise).\<close>

fun valid_datetime :: "datetime \<Rightarrow> bool" where
  "valid_datetime (DateTime y m d H M S) =
     (1 \<le> y \<and> y \<le> 9999 \<and> 1 \<le> m \<and> m \<le> 12 \<and> 1 \<le> d \<and> d \<le> days_in_month y m
      \<and> H \<le> 23 \<and> M \<le> 59 \<and> S \<le> 59)"

text \<open>
  \<^verbatim>\<open>datetime.strptime\<close> turns the format into a regular expression, matches it at the
  start of the string and rejects unconverted trailing data. For the two formats used here
  every numeric field is followed by a literal, by white space or by the end of the string,
  so a field is a run of decimal digits:
  \<^verbatim>\<open>%Y\<close> exactly four digits;
  \<^verbatim>\<open>%m\<close> (\<^verbatim>\<open>1[0-2]|0[1-9]|[1-9]\<close>) one or two digits worth 1..12;
  \<^verbatim>\<open>%d\<close> (\<^verbatim>\<open>3[0-1]|[1-2]\d|0[1-9]|[1-9]| [1-9]\<close>) one or two digits worth 1..31, or a space
  and a digit 1..9;
  \<^verbatim>\<open>%H\<close> (\<^verbatim>\<open>2[0-3]|[0-1]\d|\d\<close>) one or two digits worth 0..23;
  \<^verbatim>\<open>%M\<close> (\<^verbatim>\<open>[0-5]\d|\d\<close>) one or two digits worth 0..59;
  \<^verbatim>\<open>%S\<close> (\<^verbatim>\<open>6[0-1]|[0-5]\d|\d\<close>) one or two digits worth 0..61;
  a space in the format matches \<^verbatim>\<open>\s+\<close>. The fields then go to the
  \<^verbatim>\<open>datetime\<close> constructor. \<open>None\<close> stands for \<^verbatim>\<open>ValueError\<close>.
\<close>

text \<open>
  The white space of \<^verbatim>\<open>\s\<close> and of \<^verbatim>\<open>str.split\<close>: the six ASCII characters, the four
  separators U+001C to U+001F, the next-line character U+0085 and the no-break space U+00A0.
\<close>

definition is_space :: "char \<Rightarrow> bool" where
  "is_space c = (c = CHR '' '' \<or> c = CHR 0x09 \<or> c = CHR 0x0A \<or> c = CHR 0x0B
                 \<or> c = CHR 0x0C \<or> c = CHR 0x0D \<or> c = CHR 0x1C \<or> c = CHR 0x1D
                 \<or> c = CHR 0x1E \<or> c = CHR 0x1F \<or> c = CHR 0x85 \<or> c = CHR 0xA0)"

text \<open>A field of one or two digits worth \<open>lo..hi\<close>; the result is the value and the rest.\<close>

fun field2 :: "nat \<Rightarrow> nat \<Rightarrow> string \<Rightarrow> (nat \<times> string) option" where
  "field2 lo hi [] = None"
| "field2 lo hi [c] =
     (case digit_val c of
        None \<Rightarrow> None
      | Some a \<Rightarrow> if lo \<le> a \<and> a \<le> hi then Some (a, []) else None)"
| "field2 lo hi (c # c' # cs) =
     (case digit_val c of
        None \<Rightarrow> None
      | Some a \<Rightarrow>
          (case digit_val c' of
             None \<Rightarrow> if lo \<le> a \<and> a \<le> hi then Some (a, c' # cs) else None
           | Some b \<Rightarrow>
               if lo \<le> 10 * a + b \<and> 10 * a + b \<le> hi then Some (10 * a + b, cs) else None))"

fun year_field :: "string \<Rightarrow> (nat \<times> string) option" where
  "year_field (a # b # c # d # cs) =
     (case (digit_val a, digit_val b, digit_val c, digit_val d) of
        (Some x, Some y, Some z, Some w) \<Rightarrow> Some (1000 * x + 100 * y + 10 * z + w, cs)
      | _ \<Rightarrow> None)"
| "year_field _ = None"

fun day_field :: "string \<Rightarrow> (nat \<times> string) option" where
  "day_field [] = None"
| "day_field (c # cs) =
     (if c = CHR '' '' then
        (case cs of
           [] \<Rightarrow> None
         | c' # cs' \<Rightarrow>
             (case digit_val c' of
                None \<Rightarrow> None
              | Some a \<Rightarrow> if 1 \<le> a then Some (a, cs') else None))
      else field2 1 31 (c # cs))"

fun literal :: "char \<Rightarrow> string \<Rightarrow> string option" where
  "literal c [] = None"
| "literal c (x # xs) = (if x = c then Some xs else None)"

text \<open>\<^verbatim>\<open>\s+\<close>: at least one white-space character, then all that follow.\<close>

fun spaces1 :: "string \<Rightarrow> string option" where
  "spaces1 [] = None"
| "spaces1 (x # xs) = (if is_space x then Some (dropWhile is_space xs) else None)"

definition make_datetime :: "nat \<Rightarrow> nat \<Rightarrow> nat \<Rightarrow> nat \<Rightarrow> nat \<Rightarrow> nat \<Rightarrow> datetime option" where
  "make_datetime y m d H M S =
     (if valid_datetime (DateTime y m d H M S) then Some (DateTime y m d H M S) else None)"

text \<open>The common prefix \<^verbatim>\<open>%Y-%m-%d %H:%M\<close> of both formats.\<close>

definition parse_minutes :: "string \<Rightarrow> ((nat \<times> nat \<times> nat \<times> nat \<times> nat) \<times> string) option" where
  "parse_minutes s =
     Option.bind (year_field s) (\<lambda>(y, s1).
     Option.bind (literal CHR ''-'' s1) (\<lambda>s2.
     Option.bind (field2 1 12 s2) (\<lambda>(m, s3).
     Option.bind (literal CHR ''-'' s3) (\<lambda>s4.
     Option.bind (day_field s4) (\<lambda>(d, s5).
     Option.bind (spaces1 s5) (\<lambda>s6.
     Option.bind (field2 0 23 s6) (\<lambda>(H, s7).
     Option.bind (literal CHR '':'' s7) (\<lambda>s8.
     Option.bind (field2 0 59 s8) (\<lambda>(M, s9).
     Some ((y, m, d, H, M), s9))))))))))"

text \<open>\<^verbatim>\<open>datetime.strptime(s, "%Y-%m-%d %H:%M")\<close>.\<close>

definition strptime_minutes :: "string \<Rightarrow> datetime option" where
  "strptime_minutes s =
     (case parse_minutes s of
        Some ((y, m, d, H, M), []) \<Rightarrow> make_datetime y m d H M 0
      | _ \<Rightarrow> None)"

text \<open>\<^verbatim>\<open>datetime.strptime(s, "%Y-%m-%d %H:%M:%S")\<close>.\<close>

definition strptime_seconds :: "string \<Rightarrow> datetime option" where
  "strptime_seconds s =
     (case parse_minutes s of
        None \<Rightarrow> None
      | Some ((y, m, d, H, M), s1) \<Rightarrow>
          (case literal CHR '':'' s1 of
             None \<Rightarrow> None
           | Some s2 \<Rightarrow>
               (case field2 0 61 s2 of
                  Some (S, []) \<Rightarrow> make_datetime y m d H M S
                | _ \<Rightarrow> None)))"

section \<open>Property validators (entities/base.py, entities/event.py)\<close>

text \<open>
  The third argument of \<^verbatim>\<open>PropertyValidationError\<close>: a type, or one of the messages the
  validators build.
\<close>

datatype expected =
    Expected_type ptype
  | String_length_at_least int
  | String_length_at_most int
  | String_must_match_pattern
  | Value_at_least rat
  | Value_at_most rat
  | Value_must_be_one_of "string list"
  | Unknown_property string string

datatype py_error =
    PropertyValidationError string pyval expected
  | ValueError string
  | TypeError
  | OverflowError
  | KeyError string
  | AttributeError string

fun isinstance :: "pyval \<Rightarrow> ptype \<Rightarrow> bool" where
  "isinstance (PStr s) TStr = True"
| "isinstance (PInt i) TInt = True"
| "isinstance (PBool b) TInt = True"
| "isinstance (PFloat f) TFloat = True"
| "isinstance (PBool b) TBool = True"
| "isinstance v T = False"

text \<open>The truth value of a value (\<^verbatim>\<open>bool(v)\<close>, \<^verbatim>\<open>not v\<close>).\<close>

fun truthy :: "pyval \<Rightarrow> bool" where
  "truthy PNone = False"
| "truthy (PBool b) = b"
| "truthy (PInt i) = (i \<noteq> 0)"
| "truthy (PFloat f) = (f \<noteq> Finite 0)"
| "truthy (PStr s) = (s \<noteq> [])"
| "truthy (PDateTime d) = True"
| "truthy (POther t s) = t"

fun py_str :: "builtins \<Rightarrow> pyval \<Rightarrow> string" where
  "py_str L PNone = ''None''"
| "py_str L (PBool b) = (if b then ''True'' else ''False'')"
| "py_str L (PInt i) = str_of_int i"
| "py_str L (PFloat f) = float_repr L f"
| "py_str L (PStr s) = s"
| "py_str L (PDateTime d) = str_of_datetime d"
| "py_str L (POther t s) = s"

text \<open>\<^verbatim>\<open>int(q)\<close> on a finite float truncates towards zero.\<close>

definition truncate :: "rat \<Rightarrow> int" where
  "truncate q = (if q < 0 then - \<lfloor>- q\<rfloor> else \<lfloor>q\<rfloor>)"

text \<open>\<^verbatim>\<open>property_type(value)\<close>: calling the type on a value.\<close>

fun construct :: "builtins \<Rightarrow> ptype \<Rightarrow> pyval \<Rightarrow> py_error + pyval" where
  "construct L TStr v = Inr (PStr (py_str L v))"
| "construct L TBool v = Inr (PBool (truthy v))"
| "construct L TInt (PInt i) = Inr (PInt i)"
| "construct L TInt (PBool b) = Inr (PInt (if b then 1 else 0))"
| "construct L TInt (PFloat (Finite q)) = Inr (PInt (truncate q))"
| "construct L TInt (PFloat NaN) = Inl (ValueError ''cannot convert float NaN to integer'')"
| "construct L TInt (PFloat f) = Inl OverflowError"
| "construct L TInt (PStr s) =
     (case int_of_str L s of
        None \<Rightarrow> Inl (ValueError ''invalid literal for int()'')
      | Some i \<Rightarrow> Inr (PInt i))"
| "construct L TInt v = Inl TypeError"
| "construct L TFloat (PFloat f) = Inr (PFloat f)"
| "construct L TFloat (PInt i) =
     (case float_of_int L i of None \<Rightarrow> Inl OverflowError | Some f \<Rightarrow> Inr (PFloat f))"
| "construct L TFloat (PBool b) = Inr (PFloat (Finite (if b then 1 else 0)))"
| "construct L TFloat (PStr s) =
     (case float_of_str L s of
        None \<Rightarrow> Inl (ValueError ''could not convert string to float'')
      | Some f \<Rightarrow> Inr (PFloat f))"
| "construct L TFloat v = Inl TypeError"

text \<open>The errors \<^verbatim>\<open>except (ValueError, TypeError)\<close> catches.\<close>

fun is_value_or_type_error :: "py_error \<Rightarrow> bool" where
  "is_value_or_type_error (ValueError m) = True"
| "is_value_or_type_error TypeError = True"
| "is_value_or_type_error e = False"

text \<open>\<^verbatim>\<open>PropertyValidator.validate\<close>.\<close>

definition property_validate :: "builtins \<Rightarrow> ptype \<Rightarrow> pyval \<Rightarrow> py_error + pyval" where
  "property_validate L T v =
     (if isinstance v T then Inr v
      else (case construct L T v of
              Inr v' \<Rightarrow> Inr v'
            | Inl e \<Rightarrow>
                if is_value_or_type_error e
                then Inl (PropertyValidationError ''unknown'' v (Expected_type T))
                else Inl e))"

text \<open>
  A validator object. The compiled pattern of a \<^verbatim>\<open>StringValidator\<close> is its
  \<^verbatim>\<open>match\<close> predicate (\<open>None\<close> when no pattern, or an empty one, was given);
  \<^verbatim>\<open>EmailValidator\<close> is a \<^verbatim>\<open>StringValidator\<close> with a pattern. The bounds of a
  \<^verbatim>\<open>FloatValidator\<close> are ints or floats, hence rationals.
\<close>

datatype validator =
    PropertyValidator ptype
  | StringValidator int "int option" "(string \<Rightarrow> bool) option"
  | IntegerValidator "int option" "int option"
  | FloatValidator "rat option" "rat option" "int option"
  | ListValidator "string list" bool
  | DateTimeValidator

text \<open>The checks of \<^verbatim>\<open>StringValidator.validate\<close> after the conversion.\<close>

fun string_checks :: "int \<Rightarrow> int option \<Rightarrow> (string \<Rightarrow> bool) option \<Rightarrow> pyval \<Rightarrow> py_error + pyval" where
  "string_checks min_length max_length pattern (PStr s) =
     (if int (length s) < min_length
      then Inl (PropertyValidationError ''unknown'' (PStr s) (String_length_at_least min_length))
      else if (case max_length of None \<Rightarrow> False | Some m \<Rightarrow> m \<noteq> 0 \<and> int (length s) > m)
      then Inl (PropertyValidationError ''unknown'' (PStr s) (String_length_at_most (the max_length)))
      else if (case pattern of None \<Rightarrow> False | Some p \<Rightarrow> \<not> p s)
      then Inl (PropertyValidationError ''unknown'' (PStr s) String_must_match_pattern)
      else Inr (PStr s))"
| "string_checks min_length max_length pattern v = Inl TypeError"

text \<open>The integer an \<^verbatim>\<open>int\<close> instance (a \<^verbatim>\<open>bool\<close> is one) compares as.\<close>

fun int_checks :: "int option \<Rightarrow> int option \<Rightarrow> int \<Rightarrow> pyval \<Rightarrow> py_error + pyval" where
  "int_checks min_value max_value i v =
     (if (case min_value of None \<Rightarrow> False | Some lo \<Rightarrow> i < lo)
      then Inl (PropertyValidationError ''unknown'' v (Value_at_least (of_int (the min_value))))
      else if (case max_value of None \<Rightarrow> False | Some hi \<Rightarrow> i > hi)
      then Inl (PropertyValidationError ''unknown'' v (Value_at_most (of_int (the max_value))))
      else Inr v)"

text \<open>Comparison of a float with a bound; every comparison with NaN is false.\<close>

fun float_less :: "pyfloat \<Rightarrow> rat \<Rightarrow> bool" where
  "float_less (Finite q) b = (q < b)"
| "float_less NegInf b = True"
| "float_less PosInf b = False"
| "float_less NaN b = False"

fun float_greater :: "pyfloat \<Rightarrow> rat \<Rightarrow> bool" where
  "float_greater (Finite q) b = (q > b)"
| "float_greater NegInf b = False"
| "float_greater PosInf b = True"
| "float_greater NaN b = False"

fun float_checks :: "rat option \<Rightarrow> rat option \<Rightarrow> pyval \<Rightarrow> py_error + pyval" where
  "float_checks min_value max_value (PFloat f) =
     (if (case min_value of None \<Rightarrow> False | Some lo \<Rightarrow> float_less f lo)
      then Inl (PropertyValidationError ''unknown'' (PFloat f) (Value_at_least (the min_value)))
      else if (case max_value of None \<Rightarrow> False | Some hi \<Rightarrow> float_greater f hi)
      then Inl (PropertyValidationError ''unknown'' (PFloat f) (Value_at_most (the max_value)))
      else Inr (PFloat f))"
| "float_checks min_value max_value v = Inl TypeError"

text \<open>\<^verbatim>\<open>DateTimeValidator.validate\<close> on a string.\<close>

definition datetime_of_string :: "string \<Rightarrow> py_error + pyval" where
  "datetime_of_string s =
     (case strptime_minutes s of
        Some dt \<Rightarrow> Inr (PStr (strftime dt))
      | None \<Rightarrow>
          (case strptime_seconds s of
             Some dt \<Rightarrow> Inr (PStr (strftime dt))
           | None \<Rightarrow>
               Inl (ValueError (''Invalid datetime format. Expected YYYY-MM-DD HH:mm, got '' @ s))))"

text \<open>
  \<^verbatim>\<open>validate\<close> of each validator class. A result \<open>Inl e\<close> is the exception raised,
  \<open>Inr v\<close> the value returned.
\<close>

fun validate :: "builtins \<Rightarrow> validator \<Rightarrow> pyval \<Rightarrow> py_error + pyval" where
  "validate L (PropertyValidator T) v = property_validate L T v"
| "validate L (StringValidator min_length max_length pattern) v =
     (case property_validate L TStr v of
        Inl e \<Rightarrow> Inl e
      | Inr v' \<Rightarrow> string_checks min_length max_length pattern v')"
| "validate L (IntegerValidator min_value max_value) v =
     (case property_validate L TInt v of
        Inl e \<Rightarrow> Inl e
      | Inr (PInt i) \<Rightarrow> int_checks min_value max_value i (PInt i)
      | Inr (PBool b) \<Rightarrow> int_checks min_value max_value (if b then 1 else 0) (PBool b)
      | Inr v' \<Rightarrow> Inl TypeError)"
| "validate L (FloatValidator min_value max_value precision) v =
     (case v of
        PStr s \<Rightarrow>
          (case float_of_str L s of
             None \<Rightarrow> Inl (PropertyValidationError ''unknown'' (PStr s) (Expected_type TFloat))
           | Some f \<Rightarrow> float_checks min_value max_value (PFloat f))
      | _ \<Rightarrow>
          (case property_validate L TFloat v of
             Inl e \<Rightarrow> Inl e
           | Inr v' \<Rightarrow> float_checks min_value max_value v'))"
| "validate L (ListValidator choices allow_empty) v =
     (if \<not> truthy v \<and> allow_empty then Inr (PStr [])
      else (case property_validate L TStr v of
              Inl e \<Rightarrow> Inl e
            | Inr (PStr s) \<Rightarrow>
                if s \<in> set choices then Inr (PStr s)
                else Inl (PropertyValidationError ''unknown'' (PStr s) (Value_must_be_one_of choices))
            | Inr v' \<Rightarrow> Inl TypeError))"
| "validate L DateTimeValidator v =
     (case v of
        PDateTime dt \<Rightarrow> Inr (PStr (strftime dt))
      | PStr s \<Rightarrow> datetime_of_string s
      | _ \<Rightarrow> datetime_of_string (py_str L v))"

text \<open>
  A \<^verbatim>\<open>datetime\<close> object always holds a date and a time its constructor accepts; the other
  values carry no constraint.
\<close>

fun valid_value :: "pyval \<Rightarrow> bool" where
  "valid_value (PDateTime dt) = valid_datetime dt"
| "valid_value v = True"

section \<open>Entities (entities/base.py)\<close>

text \<open>
  A Python dict keeps its keys in insertion order: an association list with
  \<^const>\<open>AList.update\<close> for \<^verbatim>\<open>d[k] = v\<close> (the value is replaced in place, a new key goes
  to the end) and \<^const>\<open>map_of\<close> for the lookup. \<^verbatim>\<open>d.update(other)\<close> stores the items of
  \<^verbatim>\<open>other\<close> one after the other.
\<close>

definition dict_update :: "('k \<times> 'v) list \<Rightarrow> ('k \<times> 'v) list \<Rightarrow> ('k \<times> 'v) list" where
  "dict_update d other = fold (\<lambda>(k, v). AList.update k v) other d"

text \<open>
  \<^verbatim>\<open>EntityData\<close>. Its \<^verbatim>\<open>properties\<close> field always is the very dict object the entity
  holds in \<^verbatim>\<open>self.properties\<close> (\<^verbatim>\<open>update_data\<close> and \<^verbatim>\<open>from_dict\<close> both store the
  same reference in the two places), so the record keeps the other fields and the
  properties are read from the entity.
\<close>

record entity_data =
  d_id :: string
  d_type :: string
  d_label :: pyval
  d_color :: "string option"

text \<open>
  An entity instance: \<^verbatim>\<open>__class__.__name__\<close>, the dataclass fields \<^verbatim>\<open>label\<close> and
  \<^verbatim>\<open>properties\<close>, the instance attributes \<^verbatim>\<open>property_types\<close>,
  \<^verbatim>\<open>property_validators\<close> and \<^verbatim>\<open>data\<close> (\<open>None\<close> until \<^verbatim>\<open>update_data\<close> has run).
\<close>

record entity =
  class_name :: string
  label :: pyval
  properties :: "(string \<times> pyval) list"
  property_types :: "(string \<times> ptype) list"
  property_validators :: "(string \<times> validator) list"
  data :: "entity_data option"

text \<open>
  What a concrete subclass supplies: its name, its \<^verbatim>\<open>color\<close> class variable and the two
  methods it overrides.
\<close>

record entity_class =
  cls_name :: string
  cls_color :: string
  init_properties :: "entity \<Rightarrow> entity"
  update_label :: "entity \<Rightarrow> entity"

text \<open>\<^verbatim>\<open>Entity.create_validator\<close>.\<close>

fun create_validator :: "string \<Rightarrow> ptype \<Rightarrow> validator" where
  "create_validator prop_name TStr = StringValidator 0 None None"
| "create_validator prop_name TInt = IntegerValidator None None"
| "create_validator prop_name TFloat = FloatValidator None None None"
| "create_validator prop_name T = PropertyValidator T"

text \<open>\<^verbatim>\<open>Entity.setup_properties\<close>.\<close>

definition setup_properties :: "(string \<times> ptype) list \<Rightarrow> entity \<Rightarrow> entity" where
  "setup_properties props e =
     e\<lparr>property_types := dict_update (property_types e) props,
       property_validators :=
         dict_update (property_validators e)
           (map (\<lambda>(name, T). (name, create_validator name T))
              (filter (\<lambda>(name, T). map_of (property_validators e) name = None) props))\<rparr>"

text \<open>
  \<^verbatim>\<open>except PropertyValidationError as e: e.property_name = name; raise\<close>: any other
  exception passes unchanged.
\<close>

fun set_property_name :: "string \<Rightarrow> py_error \<Rightarrow> py_error" where
  "set_property_name name (PropertyValidationError n v x) = PropertyValidationError name v x"
| "set_property_name name e = e"

text \<open>
  The loop of \<^verbatim>\<open>Entity.validate_properties\<close> over \<^verbatim>\<open>self.properties.items()\<close>: every
  value is replaced by its validated form, and the first exception ends the loop.
\<close>

fun validate_items ::
  "builtins \<Rightarrow> string \<Rightarrow> (string \<times> ptype) list \<Rightarrow> (string \<times> validator) list \<Rightarrow>
   (string \<times> pyval) list \<Rightarrow> py_error + (string \<times> pyval) list" where
  "validate_items L cname types validators [] = Inr []"
| "validate_items L cname types validators ((name, v) # rest) =
     (case map_of types name of
        None \<Rightarrow> Inl (PropertyValidationError name v (Unknown_property name cname))
      | Some T \<Rightarrow>
          (case validate L (case map_of validators name of
                              Some validator \<Rightarrow> validator
                            | None \<Rightarrow> PropertyValidator T) v of
             Inl err \<Rightarrow> Inl (set_property_name name err)
           | Inr v' \<Rightarrow>
               (case validate_items L cname types validators rest of
                  Inl err \<Rightarrow> Inl err
                | Inr rest' \<Rightarrow> Inr ((name, v') # rest'))))"

definition validate_properties :: "builtins \<Rightarrow> entity \<Rightarrow> py_error + entity" where
  "validate_properties L e =
     (case validate_items L (class_name e) (property_types e) (property_validators e)
             (properties e) of
        Inl err \<Rightarrow> Inl err
      | Inr props \<Rightarrow> Inr (e\<lparr>properties := props\<rparr>))"

text \<open>
  \<^verbatim>\<open>Entity.update_data\<close>. The id is kept when the entity has a \<^verbatim>\<open>data\<close> attribute with
  a non-empty id; otherwise it is the fresh \<^verbatim>\<open>str(uuid.uuid4())\<close>, an argument here.
\<close>

definition update_data :: "entity_class \<Rightarrow> string \<Rightarrow> entity \<Rightarrow> entity" where
  "update_data C uuid e =
     (let e1 = update_label C e
      in e1\<lparr>data := Some \<lparr>
            d_id = (case data e1 of
                      None \<Rightarrow> uuid
                    | Some d \<Rightarrow> if d_id d \<noteq> [] then d_id d else uuid),
            d_type = class_name e1,
            d_label = label e1,
            d_color = Some (cls_color C)\<rparr>\<rparr>)"

text \<open>
  \<^verbatim>\<open>Entity.__post_init__\<close>. The generated property getters are attributes of the class
  and read \<^verbatim>\<open>properties\<close> only; they are no part of the state.
\<close>

definition post_init :: "builtins \<Rightarrow> entity_class \<Rightarrow> string \<Rightarrow> entity \<Rightarrow> py_error + entity" where
  "post_init L C uuid e0 =
     (let e1 = init_properties C (e0\<lparr>property_types := [], property_validators := []\<rparr>);
          e2 = e1\<lparr>property_types :=
                    dict_update (property_types e1)
                      [(''notes'', TStr), (''source'', TStr), (''image'', TStr)],
                  property_validators :=
                    dict_update (property_validators e1)
                      [(''notes'', StringValidator 0 None None),
                       (''source'', StringValidator 0 None None),
                       (''image'', StringValidator 0 None None)]\<rparr>
      in (case validate_properties L e2 of
            Inl err \<Rightarrow> Inl err
          | Inr e3 \<Rightarrow> Inr (update_data C uuid e3)))"

text \<open>The dataclass constructor \<^verbatim>\<open>cls(label=..., properties=...)\<close>.\<close>

definition new_entity ::
  "builtins \<Rightarrow> entity_class \<Rightarrow> string \<Rightarrow> pyval \<Rightarrow> (string \<times> pyval) list \<Rightarrow> py_error + entity" where
  "new_entity L C uuid lbl props =
     post_init L C uuid
       \<lparr>class_name = cls_name C, label = lbl, properties = props,
        property_types = [], property_validators = [], data = None\<rparr>"

text \<open>
  The plain mapping of \<^verbatim>\<open>to_dict\<close> and \<^verbatim>\<open>from_dict\<close>; \<open>None\<close> is an absent key
  (\<^verbatim>\<open>data.get("color")\<close> does not tell an absent colour from \<^verbatim>\<open>None\<close>).
\<close>

record entity_dict =
  dict_id :: "string option"
  dict_type :: "string option"
  dict_label :: "pyval option"
  dict_properties :: "(string \<times> pyval) list option"
  dict_color :: "string option"

text \<open>\<^verbatim>\<open>Entity.to_dict\<close>, that is \<^verbatim>\<open>self.data.to_dict()\<close>.\<close>

definition to_dict :: "entity \<Rightarrow> py_error + entity_dict" where
  "to_dict e =
     (case data e of
        None \<Rightarrow> Inl (AttributeError ''data'')
      | Some d \<Rightarrow>
          Inr \<lparr>dict_id = Some (d_id d), dict_type = Some (d_type d), dict_label = Some (d_label d),
               dict_properties = Some (properties e), dict_color = d_color d\<rparr>)"

text \<open>
  \<^verbatim>\<open>Entity.from_dict\<close>; \<open>registry\<close> is \<^verbatim>\<open>ENTITY_TYPES\<close>, \<open>uuid\<close> the id the
  constructor draws.
\<close>

definition from_dict ::
  "builtins \<Rightarrow> (string \<times> entity_class) list \<Rightarrow> string \<Rightarrow> entity_dict \<Rightarrow> py_error + entity" where
  "from_dict L registry uuid d =
     (case dict_type d of
        None \<Rightarrow> Inl (KeyError ''type'')
      | Some entity_type \<Rightarrow>
     (case map_of registry entity_type of
        None \<Rightarrow> Inl (ValueError (''Unknown entity type: '' @ entity_type))
      | Some entity_class \<Rightarrow>
     (case dict_label d of
        None \<Rightarrow> Inl (KeyError ''label'')
      | Some lbl \<Rightarrow>
     (case new_entity L entity_class uuid lbl [] of
        Inl err \<Rightarrow> Inl err
      | Inr e \<Rightarrow>
     (case dict_properties d of
        None \<Rightarrow> Inl (KeyError ''properties'')
      | Some props \<Rightarrow>
     (case dict_id d of
        None \<Rightarrow> Inl (KeyError ''id'')
      | Some i \<Rightarrow>
          Inr (e\<lparr>properties := props,
                 data := Some \<lparr>d_id = i, d_type = entity_type, d_label = lbl,
                               d_color = dict_color d\<rparr>\<rparr>)))))))"

section \<open>Event (entities/event.py)\<close>

text \<open>\<^verbatim>\<open>Event.init_properties\<close>.\<close>

definition event_init_properties :: "entity \<Rightarrow> entity" where
  "event_init_properties e =
     (let e1 = setup_properties
                 [(''name'', TStr), (''description'', TStr), (''start_date'', TStr),
                  (''end_date'', TStr), (''add_to_timeline'', TBool)] e;
          e2 = e1\<lparr>property_validators :=
                    dict_update (property_validators e1)
                      [(''start_date'', DateTimeValidator), (''end_date'', DateTimeValidator)]\<rparr>
      in if map_of (properties e2) ''add_to_timeline'' = None
         then e2\<lparr>properties := AList.update ''add_to_timeline'' (PBool False) (properties e2)\<rparr>
         else e2)"

text \<open>\<^verbatim>\<open>Event.update_label\<close>.\<close>

definition event_update_label :: "entity \<Rightarrow> entity" where
  "event_update_label e =
     (case map_of (properties e) ''name'' of
        None \<Rightarrow> e\<lparr>label := PStr ''Event''\<rparr>
      | Some v \<Rightarrow> if truthy v then e\<lparr>label := v\<rparr> else e\<lparr>label := PStr ''Event''\<rparr>)"

definition Event :: entity_class where
  "Event = \<lparr>cls_name = ''Event'', cls_color = ''#F22416'',
            init_properties = event_init_properties, update_label = event_update_label\<rparr>"

text \<open>
  \<^verbatim>\<open>Event.to_dict\<close>: the base mapping, with a \<^verbatim>\<open>datetime\<close> object under
  \<^verbatim>\<open>start_date\<close> or \<^verbatim>\<open>end_date\<close> written as a string.
\<close>

definition date_to_string :: "string \<Rightarrow> (string \<times> pyval) list \<Rightarrow> (string \<times> pyval) list" where
  "date_to_string date_field props =
     (case map_of props date_field of
        Some (PDateTime dt) \<Rightarrow> AList.update date_field (PStr (strftime dt)) props
      | _ \<Rightarrow> props)"

definition event_to_dict :: "entity \<Rightarrow> py_error + entity_dict" where
  "event_to_dict e =
     (case to_dict e of
        Inl err \<Rightarrow> Inl err
      | Inr d \<Rightarrow>
          Inr (d\<lparr>dict_properties :=
                   map_option (date_to_string ''end_date'' \<circ> date_to_string ''start_date'')
                     (dict_properties d)\<rparr>))"

text \<open>
  The body of the loop of \<^verbatim>\<open>Event.from_dict\<close> for one date field: a non-empty string is
  reformatted when one of the two formats parses it and replaced by \<^verbatim>\<open>None\<close> otherwise;
  an absent, empty or non-string value is left alone.
\<close>

definition normalize_date :: "string \<Rightarrow> (string \<times> pyval) list \<Rightarrow> (string \<times> pyval) list" where
  "normalize_date date_field props =
     (case map_of props date_field of
        Some (PStr s) \<Rightarrow>
          if s \<noteq> [] then
            (case strptime_minutes s of
               Some dt \<Rightarrow> AList.update date_field (PStr (strftime dt)) props
             | None \<Rightarrow>
                 (case strptime_seconds s of
                    Some dt \<Rightarrow> AList.update date_field (PStr (strftime dt)) props
                  | None \<Rightarrow> AList.update date_field PNone props))
          else props
      | _ \<Rightarrow> props)"

text \<open>
  \<^verbatim>\<open>Event.from_dict\<close>. It changes the mapping it is given, so the result is the mapping
  as the call leaves it together with what \<^verbatim>\<open>Entity.from_dict\<close> returns or raises.
\<close>

definition event_from_dict ::
  "builtins \<Rightarrow> (string \<times> entity_class) list \<Rightarrow> string \<Rightarrow> entity_dict \<Rightarrow>
   entity_dict \<times> (py_error + entity)" where
  "event_from_dict L registry uuid d =
     (let d' = d\<lparr>dict_properties :=
                   map_option (normalize_date ''end_date'' \<circ> normalize_date ''start_date'')
                     (dict_properties d)\<rparr>
      in (d', from_dict L registry uuid d'))"

section \<open>Transforms (transforms/base.py)\<close>

text \<open>
  The exceptions that can leave \<^verbatim>\<open>Transform.execute\<close>: the two transform errors, with the
  message and, for the execution error, the exception it was raised \<^verbatim>\<open>from\<close>; any other
  instance of \<^verbatim>\<open>Exception\<close>, with its class name and its \<^verbatim>\<open>str()\<close>; and an exception
  that derives from \<^verbatim>\<open>BaseException\<close> only (\<^verbatim>\<open>KeyboardInterrupt\<close>,
  \<^verbatim>\<open>asyncio.CancelledError\<close>), which \<^verbatim>\<open>except Exception\<close> does not catch.
\<close>

datatype transform_exc =
    TransformValidationError string
  | TransformExecutionError string transform_exc
  | OtherException string string
  | BaseOnlyException string string

fun is_Exception :: "transform_exc \<Rightarrow> bool" where
  "is_Exception (BaseOnlyException c m) = False"
| "is_Exception x = True"

fun exc_str :: "transform_exc \<Rightarrow> string" where
  "exc_str (TransformValidationError m) = m"
| "exc_str (TransformExecutionError m cause) = m"
| "exc_str (OtherException c m) = m"
| "exc_str (BaseOnlyException c m) = m"

text \<open>What \<^verbatim>\<open>await self.run(entity, graph)\<close> does: it raises, or returns a list of entities
  or some other object.\<close>

datatype run_outcome = Raises transform_exc | Returns_list "entity list" | Returns_other

text \<open>A transform: its class variables and its \<^verbatim>\<open>run\<close> method.\<close>

record transform =
  t_name :: string
  input_types :: "string list"
  output_types :: "string list"
  run :: "entity \<Rightarrow> run_outcome"

definition validate_input :: "transform \<Rightarrow> entity \<Rightarrow> bool" where
  "validate_input T e = (class_name e \<in> set (input_types T))"

fun validate_output :: "transform \<Rightarrow> run_outcome \<Rightarrow> bool" where
  "validate_output T (Returns_list entities) =
     list_all (\<lambda>e. class_name e \<in> set (output_types T)) entities"
| "validate_output T r = False"

text \<open>
  The property \<^verbatim>\<open>Entity.id\<close>, that is \<^verbatim>\<open>self.data.id\<close>: on an entity without the
  \<^verbatim>\<open>data\<close> attribute it raises \<^verbatim>\<open>AttributeError\<close>.
\<close>

definition id_of :: "entity \<Rightarrow> transform_exc + string" where
  "id_of e =
     (case data e of
        None \<Rightarrow>
          Inl (OtherException ''AttributeError''
                 ([CHR 0x27] @ class_name e @ [CHR 0x27] @ '' object has no attribute ''
                  @ [CHR 0x27] @ ''data'' @ [CHR 0x27]))
      | Some d \<Rightarrow> Inr (d_id d))"

text \<open>
  The body of the \<^verbatim>\<open>try\<close> block of \<^verbatim>\<open>execute\<close>: the test of the input, the log line
  that reads \<^verbatim>\<open>entity.id\<close>, the call of \<^verbatim>\<open>run\<close>, the test of the output. The second
  component counts the calls of \<^verbatim>\<open>run\<close>.
\<close>

definition execute_try :: "transform \<Rightarrow> entity \<Rightarrow> (transform_exc + entity list) \<times> nat" where
  "execute_try T e =
     (if \<not> validate_input T e
      then (Inl (TransformValidationError
                  (''Entity type '' @ class_name e @ '' not supported by transform '' @ t_name T)), 0)
      else (case id_of e of
              Inl x \<Rightarrow> (Inl x, 0)
            | Inr i \<Rightarrow>
                (case run T e of
                   Raises x \<Rightarrow> (Inl x, 1)
                 | Returns_list entities \<Rightarrow>
                     if \<not> validate_output T (Returns_list entities)
                     then (Inl (TransformValidationError
                                 (''Transform '' @ t_name T @ '' returned invalid output types'')), 1)
                     else (Inr entities, 1)
                 | Returns_other \<Rightarrow>
                     (Inl (TransformValidationError
                            (''Transform '' @ t_name T @ '' returned invalid output types'')), 1))))"

text \<open>
  \<^verbatim>\<open>Transform.execute\<close>: the \<^verbatim>\<open>try\<close> block under its handler
  \<^verbatim>\<open>except Exception as e: raise TransformExecutionError(...) from e\<close>.
\<close>

definition execute :: "transform \<Rightarrow> entity \<Rightarrow> (transform_exc + entity list) \<times> nat" where
  "execute T e =
     (case execute_try T e of
        (Inl x, calls) \<Rightarrow>
          if is_Exception x
          then (Inl (TransformExecutionError
                      (''Transform '' @ t_name T @ '' failed: '' @ exc_str x) x), calls)
          else (Inl x, calls)
      | (Inr result, calls) \<Rightarrow> (Inr result, calls))"

section \<open>The merge resolver (ui/components/ai_dock.py)\<close>

text \<open>
  The capital letters among the code points below 256 beyond ASCII, U+00C0 to U+00DE without
  the multiplication sign, and the small letters \<^verbatim>\<open>str.lower\<close> maps them to.
\<close>

definition latin1_capitals :: string where
  "latin1_capitals =
     [CHR 0xC0, CHR 0xC1, CHR 0xC2, CHR 0xC3, CHR 0xC4, CHR 0xC5, CHR 0xC6, CHR 0xC7,
     CHR 0xC8, CHR 0xC9, CHR 0xCA, CHR 0xCB, CHR 0xCC, CHR 0xCD, CHR 0xCE, CHR 0xCF,
     CHR 0xD0, CHR 0xD1, CHR 0xD2, CHR 0xD3, CHR 0xD4, CHR 0xD5, CHR 0xD6, CHR 0xD8,
     CHR 0xD9, CHR 0xDA, CHR 0xDB, CHR 0xDC, CHR 0xDD, CHR 0xDE]"

definition latin1_smalls :: string where
  "latin1_smalls =
     [CHR 0xE0, CHR 0xE1, CHR 0xE2, CHR 0xE3, CHR 0xE4, CHR 0xE5, CHR 0xE6, CHR 0xE7,
     CHR 0xE8, CHR 0xE9, CHR 0xEA, CHR 0xEB, CHR 0xEC, CHR 0xED, CHR 0xEE, CHR 0xEF,
     CHR 0xF0, CHR 0xF1, CHR 0xF2, CHR 0xF3, CHR 0xF4, CHR 0xF5, CHR 0xF6, CHR 0xF8,
     CHR 0xF9, CHR 0xFA, CHR 0xFB, CHR 0xFC, CHR 0xFD, CHR 0xFE]"

text \<open>\<^verbatim>\<open>str.lower\<close> on one character.\<close>

definition lower_char :: "char \<Rightarrow> char" where
  "lower_char c =
     (case map_of (zip (''ABCDEFGHIJKLMNOPQRSTUVWXYZ'' @ latin1_capitals)
                       (''abcdefghijklmnopqrstuvwxyz'' @ latin1_smalls)) c of
        Some l \<Rightarrow> l
      | None \<Rightarrow> c)"

definition lower :: "string \<Rightarrow> string" where
  "lower s = map lower_char s"

text \<open>
  \<^verbatim>\<open>\w\<close>: the underscore and every alphanumeric character, which below 256 are the ASCII
  letters and digits, the letters above, the feminine and masculine ordinal indicators, the
  micro sign, the superscripts one to three, the three vulgar fractions, the sharp s and the
  y with diaeresis.
\<close>

definition is_word_char :: "char \<Rightarrow> bool" where
  "is_word_char c =
     (c \<in> set ''abcdefghijklmnopqrstuvwxyzABCDEFGHIJKLMNOPQRSTUVWXYZ0123456789_''
      \<or> c \<in> set latin1_capitals \<or> c \<in> set latin1_smalls
      \<or> c \<in> set [CHR 0xAA, CHR 0xB2, CHR 0xB3, CHR 0xB5, CHR 0xB9, CHR 0xBA, CHR 0xBC, CHR 0xBD,
                 CHR 0xBE, CHR 0xDF, CHR 0xFF])"

text \<open>\<^verbatim>\<open>str.split()\<close>: the maximal runs of characters that are not white space.\<close>

fun split_from :: "string \<Rightarrow> string \<Rightarrow> string list" where
  "split_from word [] = (if word = [] then [] else [word])"
| "split_from word (c # cs) =
     (if is_space c then (if word = [] then split_from [] cs else word # split_from [] cs)
      else split_from (word @ [c]) cs)"

definition str_split :: "string \<Rightarrow> string list" where
  "str_split s = split_from [] s"

text \<open>\<^verbatim>\<open>' '.join(words)\<close>.\<close>

fun join_spaces :: "string list \<Rightarrow> string" where
  "join_spaces [] = []"
| "join_spaces [w] = w"
| "join_spaces (w # ws) = w @ '' '' @ join_spaces ws"

text \<open>\<^verbatim>\<open>AIDock._normalize_text\<close>.\<close>

definition normalize_text :: "string \<Rightarrow> string" where
  "normalize_text text =
     join_spaces (str_split (filter (\<lambda>c. is_word_char c \<or> is_space c) (lower text)))"

text \<open>
  A Python \<^verbatim>\<open>set\<close> of strings is the list of its elements in the order its iteration
  yields them. That order depends on the hashes of the strings, which change from one
  interpreter run to the next; \<open>order\<close> is the permutation a run applies.
\<close>

definition py_set :: "(string list \<Rightarrow> string list) \<Rightarrow> string list \<Rightarrow> string list" where
  "py_set order ws = order (remdups ws)"

datatype arith_error = ZeroDivisionError

text \<open>
  \<^verbatim>\<open>AIDock._get_similarity_score\<close>. The floats are modelled by the rationals they
  approximate (0.4 by 2/5, 0.2 by 1/5): the scores of the claims are far from the thresholds
  they are compared with.
\<close>

definition get_similarity_score :: "string list \<Rightarrow> string list \<Rightarrow> arith_error + rat" where
  "get_similarity_score words1 words2 =
     (if words1 = [] \<or> words2 = [] then Inr 0
      else
        (let intersection = length (filter (\<lambda>w. w \<in> set words2) words1);
             union = length words1 + length (filter (\<lambda>w. w \<notin> set words1) words2);
             jaccard = (if union > 0 then of_nat intersection / of_nat union else 0);
             avg_len1 = of_nat (sum_list (map length words1)) / of_nat (length words1);
             avg_len2 = of_nat (sum_list (map length words2)) / of_nat (length words2)
         in if max avg_len1 avg_len2 = 0 then Inl ZeroDivisionError
            else
              (let len_ratio = min avg_len1 avg_len2 / max avg_len1 avg_len2;
                   overlap = (if min (length words1) (length words2) > 0
                              then of_nat intersection / of_nat (min (length words1) (length words2))
                              else 0)
               in Inr (jaccard * (2 / 5) + len_ratio * (1 / 5) + overlap * (2 / 5)))))"

text \<open>\<^verbatim>\<open>node_key.lower().split(':', 1)\<close> unpacked into two names: \<open>None\<close> is the
  \<^verbatim>\<open>ValueError\<close> of a key without a colon.\<close>

definition split_key :: "string \<Rightarrow> (string \<times> string) option" where
  "split_key k =
     (case dropWhile (\<lambda>c. c \<noteq> CHR '':'') k of
        [] \<Rightarrow> None
      | c # rest \<Rightarrow> Some (takeWhile (\<lambda>c. c \<noteq> CHR '':'') k, rest))"

text \<open>The boost of the score for one candidate node.\<close>

definition boost :: "string \<Rightarrow> string list \<Rightarrow> string list \<Rightarrow> rat \<Rightarrow> rat" where
  "boost entity_type label_words node_words score =
     (if entity_type = ''event'' then
        (let sig_words1 = filter (\<lambda>w. length w > 4) label_words;
             sig_words2 = filter (\<lambda>w. length w > 4) node_words
         in if filter (\<lambda>w. w \<in> set sig_words2) sig_words1 \<noteq> [] then score * (3 / 2) else score)
      else if entity_type = ''person'' \<and> label_words \<noteq> [] \<and> node_words \<noteq> [] then
        (if hd label_words = hd node_words then score * (3 / 2) else score)
      else score)"

text \<open>
  The loop of \<^verbatim>\<open>AIDock._find_matching_entity\<close> over \<^verbatim>\<open>nodes.items()\<close>, with
  \<^verbatim>\<open>best_match\<close> and \<^verbatim>\<open>best_score\<close> as its state.
\<close>

fun best_match_loop ::
  "(string list \<Rightarrow> string list) \<Rightarrow> string \<Rightarrow> string list \<Rightarrow> (string \<times> 'n) list \<Rightarrow>
   'n option \<Rightarrow> rat \<Rightarrow> arith_error + 'n option" where
  "best_match_loop order entity_type label_words [] best_match best_score = Inr best_match"
| "best_match_loop order entity_type label_words ((node_key, node) # rest) best_match best_score =
     (case split_key (lower node_key) of
        None \<Rightarrow> best_match_loop order entity_type label_words rest best_match best_score
      | Some (node_type, node_label) \<Rightarrow>
          if node_type \<noteq> entity_type
          then best_match_loop order entity_type label_words rest best_match best_score
          else
            (let node_words = py_set order (str_split (normalize_text node_label))
             in (case get_similarity_score label_words node_words of
                   Inl err \<Rightarrow> Inl err
                 | Inr score0 \<Rightarrow>
                     (let score = boost entity_type label_words node_words score0;
                          threshold = (if entity_type = ''event'' then 1 / 2 else 7 / 10)
                      in if score > best_score \<and> score \<ge> threshold
                         then best_match_loop order entity_type label_words rest (Some node) score
                         else best_match_loop order entity_type label_words rest
                                best_match best_score))))"

text \<open>\<^verbatim>\<open>AIDock._find_matching_entity\<close>; \<open>nodes\<close> is the lookup of the existing nodes by
  their \<^verbatim>\<open>"type:label"\<close> keys.\<close>

definition find_matching_entity ::
  "(string list \<Rightarrow> string list) \<Rightarrow> string \<Rightarrow> string \<Rightarrow> (string \<times> 'n) list \<Rightarrow>
   arith_error + 'n option" where
  "find_matching_entity order entity_type0 new_label nodes =
     (let entity_type = lower entity_type0;
          label_words = py_set order (str_split (normalize_text new_label));
          key = entity_type @ '':'' @ lower new_label
      in (case map_of nodes key of
            Some node \<Rightarrow> Inr (Some node)
          | None \<Rightarrow> best_match_loop order entity_type label_words nodes None 0))"

section \<open>The graph store (ui/managers/graph_manager.py)\<close>

text \<open>
  Of an entity the bookkeeping of nodes and edges reads the id only; the label stands for
  the rest of its content.
\<close>

record graph_entity =
  entity_id :: string
  entity_label :: string

text \<open>
  An edge holds references to its two \<^verbatim>\<open>NodeVisual\<close> objects, and
  \<^verbatim>\<open>update_node\<close> assigns to the \<^verbatim>\<open>node\<close> attribute of such an object. The objects
  therefore live in a store: \<open>objects g ! a\<close> is the entity in the \<^verbatim>\<open>node\<close> attribute of
  the \<^verbatim>\<open>NodeVisual\<close> at address \<open>a\<close>, and \<open>nodes\<close> and the edges hold addresses.
  The scene, the groups, the map and the timeline are left out.
\<close>

record edge_visual =
  source :: nat
  target :: nat
  relationship :: string

record graph_manager =
  objects :: "graph_entity list"
  nodes :: "(string \<times> nat) list"
  edges :: "(string \<times> edge_visual) list"

definition graph_init :: graph_manager where
  "graph_init = \<lparr>objects = [], nodes = [], edges = []\<rparr>"

text \<open>\<^verbatim>\<open>GraphManager.add_node\<close>; the result is the new state and the node returned.\<close>

definition add_node :: "graph_entity \<Rightarrow> graph_manager \<Rightarrow> graph_manager \<times> nat" where
  "add_node entity g =
     (case map_of (nodes g) (entity_id entity) of
        Some a \<Rightarrow> (g, a)
      | None \<Rightarrow>
          (g\<lparr>objects := objects g @ [entity],
             nodes := AList.update (entity_id entity) (length (objects g)) (nodes g)\<rparr>,
           length (objects g)))"

text \<open>\<^verbatim>\<open>GraphManager.add_edge\<close>; the result is the new state and the edge returned, by
  its key in \<^verbatim>\<open>edges\<close> (\<open>None\<close> for \<^verbatim>\<open>None\<close>).\<close>

definition add_edge :: "string \<Rightarrow> string \<Rightarrow> string \<Rightarrow> graph_manager \<Rightarrow> graph_manager \<times> string option" where
  "add_edge source_id target_id rel g =
     (case map_of (nodes g) source_id of
        None \<Rightarrow> (g, None)
      | Some s \<Rightarrow>
          (case map_of (nodes g) target_id of
             None \<Rightarrow> (g, None)
           | Some t \<Rightarrow>
               (let edge_id = source_id @ ''->'' @ target_id
                in (case map_of (edges g) edge_id of
                      Some e \<Rightarrow> (g, Some edge_id)
                    | None \<Rightarrow>
                        (g\<lparr>edges := AList.update edge_id
                                       \<lparr>source = s, target = t, relationship = rel\<rparr> (edges g)\<rparr>,
                         Some edge_id)))))"

text \<open>\<^verbatim>\<open>GraphManager.update_node\<close>.\<close>

definition update_node :: "string \<Rightarrow> graph_entity \<Rightarrow> graph_manager \<Rightarrow> graph_manager" where
  "update_node node_id entity g =
     (case map_of (nodes g) node_id of
        None \<Rightarrow> g
      | Some a \<Rightarrow> g\<lparr>objects := (objects g)[a := entity]\<rparr>)"

text \<open>\<^verbatim>\<open>edge.source.node.id\<close> and \<^verbatim>\<open>edge.target.node.id\<close>.\<close>

definition source_id_of :: "graph_manager \<Rightarrow> edge_visual \<Rightarrow> string" where
  "source_id_of g e = entity_id (objects g ! source e)"

definition target_id_of :: "graph_manager \<Rightarrow> edge_visual \<Rightarrow> string" where
  "target_id_of g e = entity_id (objects g ! target e)"

text \<open>\<^verbatim>\<open>GraphManager.remove_node\<close>.\<close>

definition remove_node :: "string \<Rightarrow> graph_manager \<Rightarrow> graph_manager" where
  "remove_node node_id g =
     (case map_of (nodes g) node_id of
        None \<Rightarrow> g
      | Some a \<Rightarrow>
          g\<lparr>edges := filter (\<lambda>(edge_id, e). source_id_of g e \<noteq> node_id \<and> target_id_of g e \<noteq> node_id)
                       (edges g),
            nodes := AList.delete node_id (nodes g)\<rparr>)"

text \<open>\<^verbatim>\<open>GraphManager.clear\<close>.\<close>

definition clear :: "graph_manager \<Rightarrow> graph_manager" where
  "clear g = g\<lparr>edges := [], nodes := []\<rparr>"

text \<open>A call of one of the five operations, and a sequence of calls.\<close>

datatype graph_op =
    Add_node graph_entity
  | Add_edge string string string
  | Update_node string graph_entity
  | Remove_node string
  | Clear

fun apply_op :: "graph_op \<Rightarrow> graph_manager \<Rightarrow> graph_manager" where
  "apply_op (Add_node entity) g = fst (add_node entity g)"
| "apply_op (Add_edge s t rel) g = fst (add_edge s t rel g)"
| "apply_op (Update_node node_id entity) g = update_node node_id entity g"
| "apply_op (Remove_node node_id) g = remove_node node_id g"
| "apply_op Clear g = clear g"

definition apply_ops :: "graph_op list \<Rightarrow> graph_manager \<Rightarrow> graph_manager" where
  "apply_ops ops g = fold apply_op ops g"

text \<open>The two parts of the invariant: the ids at both ends of every edge are keys of
  \<^verbatim>\<open>nodes\<close>, and no two edges join the same ordered pair of ids.\<close>

definition edge_ends_exist :: "graph_manager \<Rightarrow> bool" where
  "edge_ends_exist g =
     list_all (\<lambda>(edge_id, e). map_of (nodes g) (source_id_of g e) \<noteq> None
                             \<and> map_of (nodes g) (target_id_of g e) \<noteq> None) (edges g)"

definition one_edge_per_pair :: "graph_manager \<Rightarrow> bool" where
  "one_edge_per_pair g =
     distinct (map (\<lambda>(edge_id, e). (source_id_of g e, target_id_of g e)) (edges g))"

text \<open>\<^verbatim>\<open>update_node\<close> called with an entity that carries the id of the node it replaces.\<close>

fun keeps_id :: "graph_op \<Rightarrow> bool" where
  "keeps_id (Update_node node_id entity) = (entity_id entity = node_id)"
| "keeps_id op = True"

text \<open>
  What the operations maintain as long as \<^verbatim>\<open>update_node\<close> keeps ids: every key of
  \<^verbatim>\<open>nodes\<close> is the id of the entity of its node, the keys of both dicts are unique
  (as in any dict), and every edge joins two nodes that are in \<^verbatim>\<open>nodes\<close> under the ids of
  their entities and is stored under the key made of these two ids.
\<close>

definition graph_inv :: "graph_manager \<Rightarrow> bool" where
  "graph_inv g =
     (distinct (map fst (nodes g)) \<and> distinct (map fst (edges g))
      \<and> list_all (\<lambda>(node_id, a). a < length (objects g) \<and> entity_id (objects g ! a) = node_id)
          (nodes g)
      \<and> list_all (\<lambda>(edge_id, e). (source_id_of g e, source e) \<in> set (nodes g)
                                \<and> (target_id_of g e, target e) \<in> set (nodes g)
                                \<and> edge_id = source_id_of g e @ ''->'' @ target_id_of g e)
          (edges g))"

section \<open>Sample inputs\<close>

text \<open>A transform stub with the class variables of \<^verbatim>\<open>EmailLookup\<close> whose \<^verbatim>\<open>run\<close> does
  what it is told, and an entity of a given class.\<close>

definition stub_transform :: "run_outcome \<Rightarrow> transform" where
  "stub_transform r =
     \<lparr>t_name = ''Email Lookup'', input_types = [''Email''],
      output_types = [''Username'', ''Website'', ''Image'', ''Location'', ''Event''],
      run = (\<lambda>e. r)\<rparr>"

definition sample_entity :: "string \<Rightarrow> entity" where
  "sample_entity c =
     \<lparr>class_name = c, label = PStr c, properties = [], property_types = [],
      property_validators = [],
      data = Some \<lparr>d_id = ''id-1'', d_type = c, d_label = PStr c, d_color = None\<rparr>\<rparr>"

text \<open>
  A library for the closed instances below. It reads a string of decimal digits as that
  number, converts a whole number to the float of the same value and prints such a float with
  \<^verbatim>\<open>.0\<close>; on whole numbers below \<open>2^53\<close> written that way this is what Python
  does, and the instances use no other numeral.
\<close>

definition plain_numeral :: "string \<Rightarrow> int option" where
  "plain_numeral s =
     (if s \<noteq> [] \<and> list_all (\<lambda>c. digit_val c \<noteq> None) s
      then Some (int (fold (\<lambda>c n. 10 * n + the (digit_val c)) s 0))
      else None)"

definition sample_builtins :: builtins where
  "sample_builtins =
     \<lparr>float_repr = (\<lambda>f. case f of Finite q \<Rightarrow> str_of_int \<lfloor>q\<rfloor> @ ''.0''
                            | PosInf \<Rightarrow> ''inf'' | NegInf \<Rightarrow> ''-inf'' | NaN \<Rightarrow> ''nan''),
      int_of_str = plain_numeral,
      float_of_str = (\<lambda>s. map_option (\<lambda>i. Finite (of_int i)) (plain_numeral s)),
      float_of_int = (\<lambda>i. Some (Finite (of_int i)))\<rparr>"

text \<open>
  An entity class that registers a validator of its own for the standard property
  \<^verbatim>\<open>notes\<close>:
  \<^verbatim>\<open>
  class Report(Entity):
      name = "Report"
      def init_properties(self):
          self.setup_properties({"title": str, "notes": str})
          self.property_validators.update({"notes": StringValidator(min_length=10)})
      def update_label(self):
          if "title" in self.properties and self.properties["title"]:
              self.label = self.properties["title"]
          else:
              self.label = "Report"
  \<close>
\<close>

definition report_init_properties :: "entity \<Rightarrow> entity" where
  "report_init_properties e =
     (let e1 = setup_properties [(''title'', TStr), (''notes'', TStr)] e
      in e1\<lparr>property_validators :=
               dict_update (property_validators e1) [(''notes'', StringValidator 10 None None)]\<rparr>)"

definition report_update_label :: "entity \<Rightarrow> entity" where
  "report_update_label e =
     (case map_of (properties e) ''title'' of
        None \<Rightarrow> e\<lparr>label := PStr ''Report''\<rparr>
      | Some v \<Rightarrow> if truthy v then e\<lparr>label := v\<rparr> else e\<lparr>label := PStr ''Report''\<rparr>)"

definition Report :: entity_class where
  "Report = \<lparr>cls_name = ''Report'', cls_color = ''#607D8B'',
             init_properties = report_init_properties, update_label = report_update_label\<rparr>"

text \<open>The event \<^verbatim>\<open>Event(properties={"name": "Party"})\<close> once constructed with the id
  \<^verbatim>\<open>id-1\<close>, and the mapping its \<^verbatim>\<open>to_dict\<close> returns.\<close>

definition event_types :: "(string \<times> ptype) list" where
  "event_types =
     [(''name'', TStr), (''description'', TStr), (''start_date'', TStr), (''end_date'', TStr),
      (''add_to_timeline'', TBool), (''notes'', TStr), (''source'', TStr), (''image'', TStr)]"

definition event_validators :: "(string \<times> validator) list" where
  "event_validators =
     [(''name'', StringValidator 0 None None), (''description'', StringValidator 0 None None),
      (''start_date'', DateTimeValidator), (''end_date'', DateTimeValidator),
      (''add_to_timeline'', PropertyValidator TBool), (''notes'', StringValidator 0 None None),
      (''source'', StringValidator 0 None None), (''image'', StringValidator 0 None None)]"

definition party :: entity where
  "party =
     \<lparr>class_name = ''Event'', label = PStr ''Party'',
      properties = [(''name'', PStr ''Party''), (''add_to_timeline'', PBool False)],
      property_types = event_types, property_validators = event_validators,
      data = Some \<lparr>d_id = ''id-1'', d_type = ''Event'', d_label = PStr ''Party'',
                    d_color = Some ''#F22416''\<rparr>\<rparr>"

definition party_dict :: entity_dict where
  "party_dict =
     \<lparr>dict_id = Some ''id-1'', dict_type = Some ''Event'', dict_label = Some (PStr ''Party''),
      dict_properties = Some [(''name'', PStr ''Party''), (''add_to_timeline'', PBool False)],
      dict_color = Some ''#F22416''\<rparr>"

text \<open>
  An event named Meeting with a start date, as it stands in \<^verbatim>\<open>__post_init__\<close> when
  \<^verbatim>\<open>validate_properties\<close> is called.
\<close>

definition meeting :: "string \<Rightarrow> entity" where
  "meeting start_date =
     \<lparr>class_name = ''Event'', label = PStr [],
      properties = [(''name'', PStr ''Meeting''), (''start_date'', PStr start_date),
                    (''add_to_timeline'', PBool False)],
      property_types = event_types, property_validators = event_validators,
      data = None\<rparr>"

text \<open>A saved event whose start date is a given string.\<close>

definition saved_event :: "string \<Rightarrow> entity_dict" where
  "saved_event start_date =
     \<lparr>dict_id = Some ''id-1'', dict_type = Some ''Event'', dict_label = Some (PStr ''Event''),
      dict_properties = Some [(''start_date'', PStr start_date), (''add_to_timeline'', PBool False)],
      dict_color = Some ''#F22416''\<rparr>"

text \<open>Three entities for the graph store, and two sequences of calls: in the first
  \<^verbatim>\<open>update_node\<close> is given an entity with the id of the node, in the second one with
  another id.\<close>

definition ann :: graph_entity where
  "ann = \<lparr>entity_id = ''a'', entity_label = ''Ann''\<rparr>"

definition bob :: graph_entity where
  "bob = \<lparr>entity_id = ''b'', entity_label = ''Bob''\<rparr>"

definition cat :: graph_entity where
  "cat = \<lparr>entity_id = ''c'', entity_label = ''Cat''\<rparr>"

definition kept_ids :: "graph_op list" where
  "kept_ids =
     [Add_node ann, Add_node bob, Add_node cat, Add_edge ''a'' ''b'' ''KNOWS'',
      Add_edge ''c'' ''a'' ''SAW'', Add_edge ''a'' ''b'' ''KNOWS'',
      Update_node ''b'' (bob\<lparr>entity_label := ''Robert''\<rparr>)]"

definition changed_id :: "graph_op list" where
  "changed_id =
     [Add_node ann, Add_node bob, Add_edge ''a'' ''b'' ''KNOWS'', Update_node ''a'' cat,
      Remove_node ''a'']"

section \<open>Transform.execute: the errors it raises\<close>

text \<open>
  Whatever the \<^verbatim>\<open>try\<close> block raises, the handler of \<^verbatim>\<open>execute\<close> catches it when it is
  an \<^verbatim>\<open>Exception\<close>, and a \<^verbatim>\<open>TransformValidationError\<close> is one: no call of
  \<^verbatim>\<open>execute\<close> ends with a \<^verbatim>\<open>TransformValidationError\<close>.
\<close>

lemma execute_never_validation_error:
  "fst (execute T e) \<noteq> Inl (TransformValidationError m)"
  by (auto simp: execute_def split: prod.splits sum.splits)

text \<open>An entity whose class is not among the input types never reaches \<^verbatim>\<open>run\<close>.\<close>

lemma execute_rejected_input_no_run:
  "\<not> validate_input T e \<Longrightarrow> snd (execute T e) = 0"
  by (simp add: execute_def execute_try_def)

text \<open>
  Claim C1. \<^verbatim>\<open>execute\<close> is to raise \<^verbatim>\<open>TransformValidationError\<close> when the class of the
  entity is not in \<^verbatim>\<open>input_types\<close>. On an \<^verbatim>\<open>Event\<close> given to a transform that takes
  \<^verbatim>\<open>Email\<close> only, \<^verbatim>\<open>run\<close> is not called, but the exception that leaves \<^verbatim>\<open>execute\<close>
  is a \<^verbatim>\<open>TransformExecutionError\<close> that wraps the validation error.
\<close>

theorem execute_rejected_input_raises_execution_error:
  "execute (stub_transform (Returns_list [])) (sample_entity ''Event'') =
     (Inl (TransformExecutionError
            ''Transform Email Lookup failed: Entity type Event not supported by transform Email Lookup''
            (TransformValidationError
               ''Entity type Event not supported by transform Email Lookup'')), 0)"
  by (simp add: execute_def execute_try_def validate_input_def stub_transform_def
      sample_entity_def)

text \<open>A result of a type outside \<^verbatim>\<open>output_types\<close> is wrapped in the same way.\<close>

lemma execute_bad_output_raises_execution_error:
  "execute (stub_transform (Returns_list [sample_entity ''Person''])) (sample_entity ''Email'') =
     (Inl (TransformExecutionError
            ''Transform Email Lookup failed: Transform Email Lookup returned invalid output types''
            (TransformValidationError
               ''Transform Email Lookup returned invalid output types'')), 1)"
  by (simp add: execute_def execute_try_def id_of_def validate_input_def stub_transform_def
      sample_entity_def)

text \<open>
  An entity without the \<^verbatim>\<open>data\<close> attribute does not reach \<^verbatim>\<open>run\<close> either: the log
  line before the call raises \<^verbatim>\<open>AttributeError\<close>, which the handler wraps.
\<close>

lemma execute_without_data:
  "validate_input T e \<Longrightarrow> data e = None \<Longrightarrow>
   execute T e =
     (case id_of e of
        Inl x \<Rightarrow> (Inl (TransformExecutionError
                         (''Transform '' @ t_name T @ '' failed: '' @ exc_str x) x), 0)
      | Inr i \<Rightarrow> (Inr [], 0))
   \<and> snd (execute T e) = 0"
  by (simp add: execute_def execute_try_def id_of_def)

text \<open>
  An exception of \<^verbatim>\<open>run\<close> that is no instance of \<^verbatim>\<open>Exception\<close> is not caught by the
  handler and leaves \<^verbatim>\<open>execute\<close> as it is.
\<close>

lemma execute_passes_base_exception:
  "validate_input T e \<Longrightarrow> data e = Some d \<Longrightarrow> run T e = Raises (BaseOnlyException c m)
   \<Longrightarrow> fst (execute T e) = Inl (BaseOnlyException c m)"
  by (simp add: execute_def execute_try_def id_of_def)

text \<open>
  Claim C9, amended. When \<^verbatim>\<open>run\<close> is reached (the type of the entity is accepted and
  the entity has its \<^verbatim>\<open>data\<close>, so that the log line passes) and raises an instance of
  \<^verbatim>\<open>Exception\<close>, \<^verbatim>\<open>execute\<close> raises a \<^verbatim>\<open>TransformExecutionError\<close> whose message
  contains the name of the transform and whose cause is the exception of \<^verbatim>\<open>run\<close>.
\<close>

theorem execute_wraps_run_exception:
  assumes "validate_input T e" and "data e = Some d"
    and "run T e = Raises x" and "is_Exception x"
  shows "execute T e =
           (Inl (TransformExecutionError
                  (''Transform '' @ t_name T @ '' failed: '' @ exc_str x) x), 1)
         \<and> sublist (t_name T) (''Transform '' @ t_name T @ '' failed: '' @ exc_str x)"
proof
  show "execute T e =
          (Inl (TransformExecutionError
                 (''Transform '' @ t_name T @ '' failed: '' @ exc_str x) x), 1)"
    using assms by (simp add: execute_def execute_try_def id_of_def)
  show "sublist (t_name T) (''Transform '' @ t_name T @ '' failed: '' @ exc_str x)"
    unfolding sublist_def by blast
qed

theorem execute_wraps_run_exception_witness:
  "validate_input (stub_transform (Raises (OtherException ''RuntimeError'' ''boom'')))
     (sample_entity ''Email'')
   \<and> data (sample_entity ''Email'') =
       Some \<lparr>d_id = ''id-1'', d_type = ''Email'', d_label = PStr ''Email'', d_color = None\<rparr>
   \<and> is_Exception (OtherException ''RuntimeError'' ''boom'')
   \<and> execute (stub_transform (Raises (OtherException ''RuntimeError'' ''boom'')))
          (sample_entity ''Email'') =
       (Inl (TransformExecutionError ''Transform Email Lookup failed: boom''
              (OtherException ''RuntimeError'' ''boom'')), 1)
   \<and> sublist ''Email Lookup'' ''Transform Email Lookup failed: boom''"
proof -
  let ?T = "stub_transform (Raises (OtherException ''RuntimeError'' ''boom''))"
  have 1: "validate_input ?T (sample_entity ''Email'')"
    by (simp add: validate_input_def stub_transform_def sample_entity_def)
  have 2: "data (sample_entity ''Email'') =
             Some \<lparr>d_id = ''id-1'', d_type = ''Email'', d_label = PStr ''Email'', d_color = None\<rparr>"
    by (simp add: sample_entity_def)
  have 3: "run ?T (sample_entity ''Email'') = Raises (OtherException ''RuntimeError'' ''boom'')"
    by (simp add: stub_transform_def)
  have 4: "is_Exception (OtherException ''RuntimeError'' ''boom'')"
    by simp
  have 5: "execute ?T (sample_entity ''Email'') =
             (Inl (TransformExecutionError ''Transform Email Lookup failed: boom''
                    (OtherException ''RuntimeError'' ''boom'')), 1)
           \<and> sublist ''Email Lookup'' ''Transform Email Lookup failed: boom''"
    using execute_wraps_run_exception [OF 1 2 3 4] by (simp add: stub_transform_def)
  from 1 2 4 5 show ?thesis by blast
qed

text \<open>
  Claim C9 as stated fails on an exception that is no instance of \<^verbatim>\<open>Exception\<close>: when
  \<^verbatim>\<open>run\<close> raises \<^verbatim>\<open>asyncio.CancelledError\<close>, which derives from
  \<^verbatim>\<open>BaseException\<close>, the handler \<^verbatim>\<open>except Exception\<close> does not catch it and it
  leaves \<^verbatim>\<open>execute\<close> unwrapped.
\<close>

theorem execute_passes_cancellation:
  "execute (stub_transform (Raises (BaseOnlyException ''CancelledError'' [])))
     (sample_entity ''Email'') =
     (Inl (BaseOnlyException ''CancelledError'' []), 1)"
  by (simp add: execute_def execute_try_def id_of_def validate_input_def stub_transform_def
      sample_entity_def)

section \<open>Dates: parsing what strftime wrote\<close>

lemma below_ten:
  "(k::nat) < 10 \<Longrightarrow>
   k = 0 \<or> k = 1 \<or> k = 2 \<or> k = 3 \<or> k = 4 \<or> k = 5 \<or> k = 6 \<or> k = 7 \<or> k = 8 \<or> k = 9"
  by arith

lemma digit_val_digit_char: "digit_val (digit_char n) = Some (n mod 10)"
proof -
  have "n mod 10 < 10" by simp
  from below_ten [OF this] show ?thesis
    by (auto simp: digit_val_def digit_char_def)
qed

lemma digit_char_not_space: "\<not> is_space (digit_char n)"
proof -
  have "n mod 10 < 10" by simp
  from below_ten [OF this] show ?thesis
    by (auto simp: digit_char_def is_space_def)
qed

lemma digit_char_not_blank: "digit_char n \<noteq> CHR '' ''"
  using digit_char_not_space [of n] by (auto simp: is_space_def)

lemma dropWhile_pad2: "dropWhile is_space (pad2 n @ r) = pad2 n @ r"
  by (simp add: pad2_def digit_char_not_space)

lemma is_space_blank: "is_space CHR '' ''"
  by (simp add: is_space_def)

lemma field2_pad2:
  "lo \<le> n \<Longrightarrow> n \<le> hi \<Longrightarrow> n < 100 \<Longrightarrow> field2 lo hi (pad2 n @ r) = Some (n, r)"
  by (simp add: pad2_def digit_val_digit_char)

lemma year_digits:
  "1000 * (y div 1000) + 100 * (y div 100 mod 10) + 10 * (y div 10 mod 10) + y mod 10 = (y::nat)"
proof -
  define a where "a = y div 10"
  define b where "b = a div 10"
  define c where "c = b div 10"
  define ry where "ry = y mod 10"
  define ra where "ra = a mod 10"
  define rb where "rb = b mod 10"
  have b': "y div 100 = b"
    unfolding a_def b_def using div_mult2_eq [of y 10 10] by simp
  have c': "y div 1000 = c"
    unfolding c_def b' [symmetric] using div_mult2_eq [of y 100 10] by simp
  have e1: "y = 10 * a + ry" unfolding a_def ry_def by simp
  have e2: "a = 10 * b + ra" unfolding b_def ra_def by simp
  have e3: "b = 10 * c + rb" unfolding c_def rb_def by simp
  have "1000 * c + 100 * rb + 10 * ra + ry = y"
    using e1 e2 e3 by linarith
  then show ?thesis
    unfolding c' b' a_def [symmetric] ra_def [symmetric] rb_def [symmetric] ry_def [symmetric] .
qed

lemma year_field_pad4: "y \<le> 9999 \<Longrightarrow> year_field (pad4 y @ r) = Some (y, r)"
  by (simp add: pad4_def digit_val_digit_char year_digits)

lemma day_field_pad2: "1 \<le> n \<Longrightarrow> n \<le> 31 \<Longrightarrow> day_field (pad2 n @ r) = Some (n, r)"
  using field2_pad2 [of 1 n 31 r] by (simp add: pad2_def digit_char_not_blank)

lemma days_in_month_le: "days_in_month y m \<le> 31"
  by (simp add: days_in_month_def)

text \<open>A year of four digits is written as it is read.\<close>

lemma str_of_nat_four_digits:
  assumes "1000 \<le> y" and "y \<le> 9999"
  shows "str_of_nat y = pad4 y"
proof -
  have a: "\<not> y < 10" "\<not> y div 10 < 10" "\<not> y div 10 div 10 < 10" "y div 10 div 10 div 10 < 10"
    using assms by simp_all
  have b: "y div 10 div 10 = y div 100" "y div 100 div 10 = y div 1000"
    using div_mult2_eq [of y 10 10] div_mult2_eq [of y 100 10] by simp_all
  have "str_of_nat y =
          [digit_char (y div 10 div 10 div 10), digit_char (y div 10 div 10),
           digit_char (y div 10), digit_char y]"
    using a
    by (subst str_of_nat.simps, subst str_of_nat.simps, subst str_of_nat.simps,
        subst str_of_nat.simps) simp
  then show ?thesis
    by (simp add: pad4_def b)
qed

lemma parse_minutes_strftime:
  assumes "valid_datetime (DateTime y m d H M S)" and "1000 \<le> y"
  shows "parse_minutes (strftime (DateTime y m d H M S) @ r) = Some ((y, m, d, H, M), r)"
proof -
  have d: "d \<le> 31" using assms(1) days_in_month_le [of y m] by simp
  have y: "str_of_nat y = pad4 y"
    using assms by (simp add: str_of_nat_four_digits)
  show ?thesis
    using assms(1) d
    by (simp add: y parse_minutes_def year_field_pad4 field2_pad2 day_field_pad2 dropWhile_pad2
        is_space_blank)
qed

lemma strptime_minutes_strftime:
  assumes "valid_datetime (DateTime y m d H M S)" and "1000 \<le> y"
  shows "strptime_minutes (strftime (DateTime y m d H M S)) = Some (DateTime y m d H M 0)"
  using parse_minutes_strftime [OF assms, of "[]"] assms(1)
  by (simp add: strptime_minutes_def make_datetime_def del: strftime.simps)

lemma strptime_minutes_valid: "strptime_minutes s = Some dt \<Longrightarrow> valid_datetime dt"
  by (auto simp: strptime_minutes_def make_datetime_def
      split: option.splits prod.splits list.splits if_splits)

lemma strptime_seconds_valid: "strptime_seconds s = Some dt \<Longrightarrow> valid_datetime dt"
  by (auto simp: strptime_seconds_def make_datetime_def
      split: option.splits prod.splits list.splits if_splits)

lemma datetime_of_string_strftime:
  assumes "valid_datetime dt" and "1000 \<le> year dt"
  shows "datetime_of_string (strftime dt) = Inr (PStr (strftime dt))"
proof (cases dt)
  case (DateTime y m d H M S)
  then show ?thesis
    using assms strptime_minutes_strftime [of y m d H M S]
    by (simp add: datetime_of_string_def del: strftime.simps)
      (simp add: str_of_nat_four_digits)
qed

lemma datetime_of_string_result:
  assumes "datetime_of_string s = Inr y"
  shows "\<exists>dt. valid_datetime dt \<and> y = PStr (strftime dt)"
  using assms
  by (auto simp: datetime_of_string_def split: option.splits
      dest: strptime_minutes_valid strptime_seconds_valid)

section \<open>Validators: validating a validated value\<close>

lemma construct_isinstance: "construct L T v = Inr y \<Longrightarrow> isinstance y T"
  by (induction L T v rule: construct.induct) (auto split: option.splits)

lemma property_validate_isinstance: "property_validate L T v = Inr y \<Longrightarrow> isinstance y T"
  by (auto simp: property_validate_def construct_isinstance split: if_splits sum.splits)

lemma property_validate_instance: "isinstance y T \<Longrightarrow> property_validate L T y = Inr y"
  by (simp add: property_validate_def)

lemma string_checks_result: "string_checks a b c v = Inr y \<Longrightarrow> y = v \<and> isinstance y TStr"
  by (cases v) (auto split: if_splits)

lemma float_checks_result: "float_checks a b v = Inr y \<Longrightarrow> y = v \<and> isinstance y TFloat"
  by (cases v) (auto split: if_splits)

text \<open>
  Every validator of \<^verbatim>\<open>entities/base.py\<close> returns a value it accepts and leaves as
  it is.
\<close>

lemma validate_validated:
  assumes "v \<noteq> DateTimeValidator" and "validate L v x = Inr y"
  shows "validate L v y = Inr y"
proof (cases v)
  case (PropertyValidator T)
  then show ?thesis
    using assms(2) by (simp add: property_validate_isinstance property_validate_instance)
next
  case (StringValidator a b c)
  with assms(2) obtain z where
    z: "property_validate L TStr x = Inr z" "string_checks a b c z = Inr y"
    by (auto split: sum.splits)
  from string_checks_result [OF z(2)] have "y = z" "isinstance y TStr" by auto
  then show ?thesis
    using StringValidator z(2) by (simp add: property_validate_instance)
next
  case (IntegerValidator a b)
  then show ?thesis
    using assms(2)
    by (auto simp: property_validate_instance split: sum.splits pyval.splits if_splits)
next
  case (FloatValidator a b c)
  have "\<exists>z. float_checks a b z = Inr y"
  proof (cases x)
    case (PStr s)
    then show ?thesis
      using assms(2) FloatValidator
      by (auto simp del: float_checks.simps split: option.splits)
  qed (use assms(2) FloatValidator in \<open>auto simp del: float_checks.simps split: sum.splits\<close>)
  then obtain z where z: "float_checks a b z = Inr y" by blast
  from float_checks_result [OF z] have yz: "y = z" "isinstance y TFloat" by auto
  obtain f where f: "y = PFloat f" using yz(2) by (cases y) auto
  have "float_checks a b (PFloat f) = Inr (PFloat f)"
    using z yz(1) f by simp
  then show ?thesis
    unfolding FloatValidator f
    by (simp add: property_validate_instance del: float_checks.simps)
next
  case (ListValidator choices allow_empty)
  then show ?thesis
    using assms(2)
    by (auto simp: property_validate_instance split: sum.splits pyval.splits if_splits)
next
  case DateTimeValidator
  with assms(1) show ?thesis by simp
qed

text \<open>A \<^verbatim>\<open>FloatValidator\<close> returns the float it is given, not a rounded one.\<close>

lemma float_validator_keeps_float:
  "validate L (FloatValidator lo hi p) (PFloat f) = Inr y \<Longrightarrow> y = PFloat f"
  by (auto simp: property_validate_def split: if_splits)

text \<open>
  The \<^verbatim>\<open>DateTimeValidator\<close> returns a date as \<^verbatim>\<open>strftime\<close> writes it, and accepts
  that string again when the year has four digits.
\<close>

lemma datetime_validator_result:
  assumes "valid_value x" and "validate L DateTimeValidator x = Inr y"
  shows "\<exists>dt. valid_datetime dt \<and> y = PStr (strftime dt)"
proof (cases x)
  case (PDateTime dt)
  then show ?thesis using assms by auto
qed (use assms(2) in \<open>auto dest: datetime_of_string_result\<close>)

lemma datetime_validator_four_digit_year:
  assumes "valid_datetime dt" and "1000 \<le> year dt"
  shows "validate L DateTimeValidator (PStr (strftime dt)) = Inr (PStr (strftime dt))"
  using datetime_of_string_strftime [OF assms] by simp

lemma no_datetime_validator:
  assumes "list_all (\<lambda>(name, w). w \<noteq> DateTimeValidator) validators"
  shows "(case map_of validators name of Some validator \<Rightarrow> validator
          | None \<Rightarrow> PropertyValidator T) \<noteq> DateTimeValidator"
proof (cases "map_of validators name")
  case None
  then show ?thesis by simp
next
  case (Some w)
  then have "(name, w) \<in> set validators" by (rule map_of_SomeD)
  with assms Some show ?thesis by (auto simp: list_all_iff)
qed

lemma validate_items_validated:
  assumes "list_all (\<lambda>(name, w). w \<noteq> DateTimeValidator) validators"
    and "validate_items L cname types validators props = Inr props'"
  shows "validate_items L cname types validators props' = Inr props'"
  using assms(2)
proof (induction props arbitrary: props')
  case Nil
  then show ?case by simp
next
  case (Cons p props)
  obtain name x where p: "p = (name, x)" by (cases p)
  from Cons.prems p obtain T where T: "map_of types name = Some T"
    by (auto split: option.splits)
  define w where "w = (case map_of validators name of Some validator \<Rightarrow> validator
                       | None \<Rightarrow> PropertyValidator T)"
  have w: "w \<noteq> DateTimeValidator"
    unfolding w_def by (rule no_datetime_validator [OF assms(1)])
  from Cons.prems p T obtain y rest' where
    y: "validate L w x = Inr y"
    and rest: "validate_items L cname types validators props = Inr rest'"
    and props': "props' = (name, y) # rest'"
    unfolding w_def by (auto split: sum.splits)
  have "validate L w y = Inr y"
    using validate_validated [OF w y] .
  moreover have "validate_items L cname types validators rest' = Inr rest'"
    using Cons.IH [OF rest] .
  ultimately show ?case
    using T props' unfolding w_def by simp
qed

text \<open>
  So a second \<^verbatim>\<open>validate_properties\<close> changes nothing on an entity none of whose
  validators is a \<^verbatim>\<open>DateTimeValidator\<close>.
\<close>

lemma validate_properties_validated:
  assumes "list_all (\<lambda>(name, w). w \<noteq> DateTimeValidator) (property_validators e)"
    and "validate_properties L e = Inr e'"
  shows "validate_properties L e' = Inr e'"
proof -
  from assms(2) obtain props' where
    props': "validate_items L (class_name e) (property_types e) (property_validators e)
               (properties e) = Inr props'"
    and e': "e' = e\<lparr>properties := props'\<rparr>"
    by (auto simp: validate_properties_def split: sum.splits)
  from validate_items_validated [OF assms(1) props'] show ?thesis
    by (simp add: validate_properties_def e')
qed

lemma strptime_early_year:
  "strptime_minutes ''0999-01-05 09:05'' = Some (DateTime 999 1 5 9 5 0)"
  "strptime_minutes ''999-01-05 09:05'' = None"
  "strptime_seconds ''999-01-05 09:05'' = None"
  by (simp_all add: strptime_minutes_def strptime_seconds_def parse_minutes_def digit_val_def
      is_space_def make_datetime_def days_in_month_def is_leap_def)

lemma strftime_early_year:
  "strftime (DateTime 999 1 5 9 5 0) = ''999-01-05 09:05''"
  by (simp add: str_of_nat.simps pad2_def digit_char_def)

text \<open>
  Claim C8. Every validator is to be idempotent, so that a second
  \<^verbatim>\<open>validate_properties\<close> on an unchanged entity raises nothing. The
  \<^verbatim>\<open>DateTimeValidator\<close>, whose documentation and error message name the format
  \<^verbatim>\<open>YYYY-MM-DD HH:mm\<close>, returns for a date of the year 999 the string
  \<^verbatim>\<open>999-01-05 09:05\<close>, whose year has three digits, and rejects that string when it is
  given it: the first \<^verbatim>\<open>validate_properties\<close> on an event of that year succeeds, the
  second raises \<^verbatim>\<open>ValueError\<close>.
\<close>

theorem datetime_validator_rejects_its_result:
  "validate L DateTimeValidator (PDateTime (DateTime 999 1 5 9 5 0)) =
     Inr (PStr ''999-01-05 09:05'')
   \<and> validate L DateTimeValidator (PStr ''0999-01-05 09:05'') = Inr (PStr ''999-01-05 09:05'')
   \<and> validate L DateTimeValidator (PStr ''999-01-05 09:05'') =
       Inl (ValueError ''Invalid datetime format. Expected YYYY-MM-DD HH:mm, got 999-01-05 09:05'')
   \<and> validate_properties L (meeting ''0999-01-05 09:05'') = Inr (meeting ''999-01-05 09:05'')
   \<and> validate_properties L (meeting ''999-01-05 09:05'') =
       Inl (ValueError ''Invalid datetime format. Expected YYYY-MM-DD HH:mm, got 999-01-05 09:05'')"
  by (simp add: validate_properties_def meeting_def event_types_def event_validators_def
      property_validate_def datetime_of_string_def strptime_early_year str_of_nat.simps pad2_def
      digit_char_def)

text \<open>With a year of four digits the same event passes both calls.\<close>

lemma strptime_sample:
  "strptime_minutes ''2024-1-5 9:05:33'' = None"
  "strptime_seconds ''2024-1-5 9:05:33'' = Some (DateTime 2024 1 5 9 5 33)"
  "strptime_minutes ''2024-01-05 09:05'' = Some (DateTime 2024 1 5 9 5 0)"
  by (simp_all add: strptime_minutes_def strptime_seconds_def parse_minutes_def digit_val_def
      is_space_def make_datetime_def days_in_month_def is_leap_def)

lemma validate_properties_sample:
  "validate_properties L (meeting ''2024-1-5 9:05:33'') = Inr (meeting ''2024-01-05 09:05'')"
  "validate_properties L (meeting ''2024-01-05 09:05'') = Inr (meeting ''2024-01-05 09:05'')"
  by (simp_all add: validate_properties_def meeting_def event_types_def event_validators_def
      property_validate_def datetime_of_string_def strptime_sample str_of_nat.simps pad2_def
      digit_char_def)

section \<open>Entities: construction\<close>

lemmas entity_defs = new_entity_def post_init_def validate_properties_def update_data_def
  setup_properties_def dict_update_def property_validate_def

lemmas event_defs = Event_def event_init_properties_def event_update_label_def
  event_types_def event_validators_def

lemmas report_defs = Report_def report_init_properties_def report_update_label_def

lemma new_event_without_properties:
  "new_entity L Event uuid lbl [] =
     Inr \<lparr>class_name = ''Event'', label = PStr ''Event'',
          properties = [(''add_to_timeline'', PBool False)],
          property_types = event_types, property_validators = event_validators,
          data = Some \<lparr>d_id = uuid, d_type = ''Event'', d_label = PStr ''Event'',
                        d_color = Some ''#F22416''\<rparr>\<rparr>"
  by (simp add: entity_defs event_defs)

text \<open>
  Claim C7. An \<^verbatim>\<open>Event\<close> constructed without an \<^verbatim>\<open>add_to_timeline\<close> property is to
  hold \<^verbatim>\<open>add_to_timeline = True\<close>. \<^verbatim>\<open>Event()\<close>, whatever its label argument and the
  id drawn, comes out with \<^verbatim>\<open>add_to_timeline\<close> set to \<^verbatim>\<open>False\<close>.
\<close>

theorem event_default_add_to_timeline:
  "new_entity L Event uuid lbl [] =
     Inr \<lparr>class_name = ''Event'', label = PStr ''Event'',
          properties = [(''add_to_timeline'', PBool False)],
          property_types = event_types, property_validators = event_validators,
          data = Some \<lparr>d_id = uuid, d_type = ''Event'', d_label = PStr ''Event'',
                        d_color = Some ''#F22416''\<rparr>\<rparr>"
  by (simp add: entity_defs event_defs)

text \<open>
  More generally, whatever properties an \<^verbatim>\<open>Event\<close> is constructed with, when
  \<^verbatim>\<open>add_to_timeline\<close> is not among them the event holds \<^verbatim>\<open>False\<close> for it.
\<close>

lemma validate_items_lookup:
  assumes "validate_items L cname types validators props = Inr props'"
    and "map_of props k = Some v" and "map_of types k = Some T"
  shows "\<exists>v'. map_of props' k = Some v'
           \<and> validate L (case map_of validators k of Some w \<Rightarrow> w | None \<Rightarrow> PropertyValidator T) v = Inr v'"
  using assms
proof (induction props arbitrary: props')
  case Nil
  then show ?case by simp
next
  case (Cons p props)
  obtain name x where p: "p = (name, x)" by (cases p)
  from Cons.prems(1) p obtain T' where T': "map_of types name = Some T'"
    by (auto split: option.splits)
  define w where "w = (case map_of validators name of Some validator \<Rightarrow> validator
                       | None \<Rightarrow> PropertyValidator T')"
  from Cons.prems(1) p T' obtain y rest' where
    y: "validate L w x = Inr y"
    and rest: "validate_items L cname types validators props = Inr rest'"
    and props': "props' = (name, y) # rest'"
    unfolding w_def by (auto split: sum.splits)
  show ?case
  proof (cases "name = k")
    case True
    with Cons.prems(2,3) p T' have xv: "x = v" and TT: "T' = T" by simp_all
    from y show ?thesis unfolding w_def props' xv TT True by simp
  next
    case False
    with Cons.prems(2) p have "map_of props k = Some v" by simp
    from Cons.IH [OF rest this Cons.prems(3)] False props' show ?thesis by simp
  qed
qed

lemma event_add_to_timeline_false:
  assumes "map_of props ''add_to_timeline'' = None"
    and "new_entity L Event uuid lbl props = Inr e"
  shows "map_of (properties e) ''add_to_timeline'' = Some (PBool False)"
proof -
  let ?ps = "AList.update ''add_to_timeline'' (PBool False) props"
  from assms obtain ps' where
    v: "validate_items L ''Event'' event_types event_validators ?ps = Inr ps'"
    and e: "properties e = ps'"
    by (auto simp: entity_defs event_defs Let_def split: sum.splits option.splits if_splits)
  have "map_of ?ps ''add_to_timeline'' = Some (PBool False)"
    by (simp add: update_conv')
  from validate_items_lookup [OF v this, of TBool] show ?thesis
    by (auto simp: e event_types_def event_validators_def property_validate_def)
qed


text \<open>
  Claim C6. A validator that \<^verbatim>\<open>init_properties\<close> registers for \<^verbatim>\<open>notes\<close> is to
  survive the merge of the standard properties. The class \<^verbatim>\<open>Report\<close> registers
  \<^verbatim>\<open>StringValidator(min_length=10)\<close> for \<^verbatim>\<open>notes\<close>; after construction
  \<^verbatim>\<open>property_validators["notes"]\<close> is the default \<^verbatim>\<open>StringValidator()\<close>, and notes of
  five characters, which the validator of the class rejects, are accepted.
\<close>

theorem report_notes_validator_replaced:
  "map_of (property_validators
            (init_properties Report (e\<lparr>property_types := [], property_validators := []\<rparr>)))
     ''notes'' = Some (StringValidator 10 None None)
   \<and> validate L (StringValidator 10 None None) (PStr ''short'') =
       Inl (PropertyValidationError ''unknown'' (PStr ''short'') (String_length_at_least 10))
   \<and> map_sum id (\<lambda>e. (map_of (property_validators e) ''notes'', properties e))
        (new_entity L Report uuid lbl [(''notes'', PStr ''short'')]) =
       Inr (Some (StringValidator 0 None None), [(''notes'', PStr ''short'')])"
  by (simp add: entity_defs report_defs)

text \<open>The merge step itself: whatever \<^verbatim>\<open>init_properties\<close> stored under \<^verbatim>\<open>notes\<close>, the
  update puts the standard validator there.\<close>

lemma standard_validator_replaces:
  "map_of (dict_update validators [(''notes'', a), (''source'', b), (''image'', c)]) ''notes'' =
     Some a"
  by (simp add: dict_update_def update_conv')

section \<open>Entities: validate_properties and the name in the error\<close>

text \<open>
  A \<^verbatim>\<open>PropertyValidationError\<close> that leaves \<^verbatim>\<open>validate_properties\<close> carries the name
  of a property of the entity.
\<close>

lemma validate_items_error_name:
  "validate_items L cname types validators props = Inl (PropertyValidationError n v x)
   \<Longrightarrow> n \<in> fst ` set props"
proof (induction props)
  case Nil
  then show ?case by simp
next
  case (Cons p props)
  obtain name val where p: "p = (name, val)" by (cases p)
  show ?case
  proof (cases "map_of types name")
    case None
    with Cons.prems p show ?thesis by simp
  next
    case (Some T)
    define w where "w = (case map_of validators name of Some validator \<Rightarrow> validator
                         | None \<Rightarrow> PropertyValidator T)"
    show ?thesis
    proof (cases "validate L w val")
      case (Inl err)
      with Cons.prems p Some have "set_property_name name err = PropertyValidationError n v x"
        unfolding w_def by simp
      then have "n = name" by (cases err) simp_all
      with p show ?thesis by simp
    next
      case (Inr val')
      with Cons.prems p Some have
        "validate_items L cname types validators props = Inl (PropertyValidationError n v x)"
        unfolding w_def by (simp split: sum.splits)
      with Cons.IH show ?thesis by simp
    qed
  qed
qed

text \<open>The \<^verbatim>\<open>DateTimeValidator\<close> never raises a \<^verbatim>\<open>PropertyValidationError\<close>.\<close>

lemma datetime_validator_error:
  "validate L DateTimeValidator v \<noteq> Inl (PropertyValidationError n w x)"
  by (cases v) (auto simp: datetime_of_string_def split: option.splits)

lemma strptime_tomorrow:
  "strptime_minutes ''tomorrow'' = None" "strptime_seconds ''tomorrow'' = None"
  by (simp_all add: strptime_minutes_def strptime_seconds_def parse_minutes_def digit_val_def)

text \<open>
  Claim C4. A property whose value its validator rejects is to make
  \<^verbatim>\<open>validate_properties\<close> raise a \<^verbatim>\<open>PropertyValidationError\<close> that names the
  property, the date fields of an \<^verbatim>\<open>Event\<close> included. On an event whose
  \<^verbatim>\<open>start_date\<close> is \<^verbatim>\<open>"tomorrow"\<close> the exception raised is a \<^verbatim>\<open>ValueError\<close>, which
  has no property name.
\<close>

theorem validate_properties_bad_date:
  "validate_properties L (meeting ''tomorrow'') =
     Inl (ValueError ''Invalid datetime format. Expected YYYY-MM-DD HH:mm, got tomorrow'')"
  by (simp add: validate_properties_def meeting_def event_types_def event_validators_def
      property_validate_def datetime_of_string_def strptime_tomorrow)

text \<open>
  So does an \<^verbatim>\<open>OverflowError\<close>: \<^verbatim>\<open>int(float("inf"))\<close> raises it, and the base
  validator catches \<^verbatim>\<open>ValueError\<close> and \<^verbatim>\<open>TypeError\<close> only.
\<close>

lemma integer_validator_infinity:
  "validate L (IntegerValidator lo hi) (PFloat PosInf) = Inl OverflowError"
  by (simp add: property_validate_def)

text \<open>The constructor passes the exception of the date on.\<close>

lemma new_event_bad_date:
  "new_entity L Event uuid lbl [(''start_date'', PStr ''tomorrow'')] =
     Inl (ValueError ''Invalid datetime format. Expected YYYY-MM-DD HH:mm, got tomorrow'')"
  by (simp add: entity_defs event_defs datetime_of_string_def strptime_tomorrow)

section \<open>Entities: to_dict and from_dict\<close>

text \<open>
  Every event the constructor returns comes back from \<^verbatim>\<open>from_dict\<close> of its
  \<^verbatim>\<open>to_dict\<close> with everything but the label: the label is \<^verbatim>\<open>"Event"\<close> whatever it
  was.
\<close>

lemma new_event_shape:
  assumes "new_entity L Event uuid lbl props = Inr e"
  shows "e = \<lparr>class_name = ''Event'', label = label e, properties = properties e,
              property_types = event_types, property_validators = event_validators,
              data = Some \<lparr>d_id = uuid, d_type = ''Event'', d_label = label e,
                            d_color = Some ''#F22416''\<rparr>\<rparr>"
  using assms
  by (auto simp: entity_defs event_defs Let_def split: sum.splits option.splits if_splits)

lemma event_round_trip:
  assumes "new_entity L Event uuid lbl props = Inr e" and "to_dict e = Inr d"
  shows "from_dict L [(''Event'', Event)] uuid' d = Inr (e\<lparr>label := PStr ''Event''\<rparr>)"
proof -
  note shape = new_event_shape [OF assms(1)]
  have d: "d = \<lparr>dict_id = Some uuid, dict_type = Some ''Event'', dict_label = Some (label e),
                 dict_properties = Some (properties e), dict_color = Some ''#F22416''\<rparr>"
    using assms(2) by (subst (asm) shape) (auto simp: to_dict_def)
  show ?thesis
    unfolding d by (subst (2) shape) (simp add: from_dict_def new_event_without_properties)
qed

text \<open>
  Claim C2. \<^verbatim>\<open>from_dict(to_dict(e))\<close> is to give an entity with the id, type, label,
  properties and colour of \<open>e\<close>. For the event \<^verbatim>\<open>Event(properties={"name": "Party"})\<close>,
  whose label is \<^verbatim>\<open>"Party"\<close>, the entity that comes back has the label \<^verbatim>\<open>"Event"\<close>:
  the constructor called by \<^verbatim>\<open>from_dict\<close> derives the label from its empty properties,
  and nothing derives it again once the properties are restored. Everything else, the
  \<^verbatim>\<open>data\<close> record included, is as in \<open>e\<close>.
\<close>

theorem event_round_trip_label:
  "new_entity L Event ''id-1'' (PStr []) [(''name'', PStr ''Party'')] = Inr party
   \<and> label party = PStr ''Party''
   \<and> event_to_dict party = Inr party_dict
   \<and> from_dict L [(''Event'', Event)] ''id-2'' party_dict = Inr (party\<lparr>label := PStr ''Event''\<rparr>)"
  by (simp add: entity_defs event_defs party_def party_dict_def event_to_dict_def to_dict_def
      date_to_string_def from_dict_def)

section \<open>Event.from_dict and dates that do not parse\<close>

lemma new_event_succeeds: "\<exists>e. new_entity L Event uuid lbl [] = Inr e"
  by (simp add: entity_defs event_defs)

lemma normalize_date_other: "k \<noteq> f \<Longrightarrow> map_of (normalize_date f ps) k = map_of ps k"
  by (auto simp: normalize_date_def update_conv' split: option.splits pyval.splits)

lemma normalize_date_invalid:
  "map_of ps f = Some (PStr s) \<Longrightarrow> s \<noteq> [] \<Longrightarrow> strptime_minutes s = None
   \<Longrightarrow> strptime_seconds s = None \<Longrightarrow> map_of (normalize_date f ps) f = Some PNone"
  by (simp add: normalize_date_def update_conv')

text \<open>
  Claim C10, amended. Given a mapping whose \<^verbatim>\<open>start_date\<close> or \<^verbatim>\<open>end_date\<close> is a
  non-empty string that neither format parses, \<^verbatim>\<open>Event.from_dict\<close> stores \<^verbatim>\<open>None\<close>
  under that key in the mapping it was given and, when the mapping has an id, a label and the
  registered type \<^verbatim>\<open>Event\<close>, returns an entity that holds these properties; it raises
  nothing.
\<close>

theorem event_from_dict_invalid_date:
  assumes "date_field = ''start_date'' \<or> date_field = ''end_date''"
    and "dict_properties d = Some props"
    and "map_of props date_field = Some (PStr s)" and "s \<noteq> []"
    and "strptime_minutes s = None" and "strptime_seconds s = None"
    and "dict_type d = Some ''Event''" and "map_of registry ''Event'' = Some Event"
    and "dict_label d = Some lbl" and "dict_id d = Some i"
  shows "dict_properties (fst (event_from_dict L registry uuid d)) =
           Some (normalize_date ''end_date'' (normalize_date ''start_date'' props))
         \<and> map_of (normalize_date ''end_date'' (normalize_date ''start_date'' props)) date_field =
             Some PNone
         \<and> map_sum id properties (snd (event_from_dict L registry uuid d)) =
             Inr (normalize_date ''end_date'' (normalize_date ''start_date'' props))"
proof -
  let ?ps = "normalize_date ''end_date'' (normalize_date ''start_date'' props)"
  have m: "map_of ?ps date_field = Some PNone"
  proof (cases "date_field = ''start_date''")
    case True
    then show ?thesis using assms(3-6)
      by (simp add: normalize_date_other normalize_date_invalid)
  next
    case False
    with assms(1) have e: "date_field = ''end_date''" by simp
    have "map_of (normalize_date ''start_date'' props) ''end_date'' = Some (PStr s)"
      using assms(3) e by (simp add: normalize_date_other)
    then show ?thesis using e assms(4-6) by (simp add: normalize_date_invalid)
  qed
  obtain e0 where e0: "new_entity L Event uuid lbl [] = Inr e0"
    using new_event_succeeds by blast
  show ?thesis
    using m e0 assms(2,7-10) by (simp add: event_from_dict_def from_dict_def)
qed

theorem event_from_dict_invalid_date_witness:
  "dict_properties
     (fst (event_from_dict sample_builtins [(''Event'', Event)] ''id-2'' (saved_event ''tomorrow''))) =
     Some [(''start_date'', PNone), (''add_to_timeline'', PBool False)]
   \<and> map_of [(''start_date'', PNone), (''add_to_timeline'', PBool False)] ''start_date'' = Some PNone
   \<and> map_sum id properties
        (snd (event_from_dict sample_builtins [(''Event'', Event)] ''id-2'' (saved_event ''tomorrow''))) =
       Inr [(''start_date'', PNone), (''add_to_timeline'', PBool False)]"
proof -
  let ?props = "[(''start_date'', PStr ''tomorrow''), (''add_to_timeline'', PBool False)]"
  have n: "normalize_date ''end_date'' (normalize_date ''start_date'' ?props) =
             [(''start_date'', PNone), (''add_to_timeline'', PBool False)]"
    by (simp add: normalize_date_def strptime_tomorrow)
  have "dict_properties (fst (event_from_dict sample_builtins [(''Event'', Event)] ''id-2''
            (saved_event ''tomorrow''))) =
          Some (normalize_date ''end_date'' (normalize_date ''start_date'' ?props))
        \<and> map_of (normalize_date ''end_date'' (normalize_date ''start_date'' ?props)) ''start_date'' =
            Some PNone
        \<and> map_sum id properties (snd (event_from_dict sample_builtins [(''Event'', Event)] ''id-2''
            (saved_event ''tomorrow''))) =
            Inr (normalize_date ''end_date'' (normalize_date ''start_date'' ?props))"
    by (rule event_from_dict_invalid_date [where s = "''tomorrow''" and lbl = "PStr ''Event''"
          and i = "''id-1''"])
      (simp_all add: saved_event_def strptime_tomorrow)
  then show ?thesis unfolding n .
qed

text \<open>
  Claim C10 as stated fails on the empty string: it is a string that neither format parses,
  and \<^verbatim>\<open>Event.from_dict\<close> leaves it in the mapping, the test
  \<^verbatim>\<open>data["properties"][date_field]\<close> being false for it.
\<close>

theorem event_from_dict_empty_date_kept:
  "strptime_minutes [] = None \<and> strptime_seconds [] = None
   \<and> dict_properties
       (fst (event_from_dict sample_builtins [(''Event'', Event)] ''id-2'' (saved_event []))) =
       Some [(''start_date'', PStr []), (''add_to_timeline'', PBool False)]"
  by (simp add: strptime_minutes_def strptime_seconds_def parse_minutes_def
      event_from_dict_def saved_event_def normalize_date_def Let_def)

section \<open>The merge resolver on the two scenarios\<close>

lemmas text_defs = lower_def lower_char_def is_word_char_def is_space_def str_split_def
  normalize_text_def split_key_def latin1_capitals_def latin1_smalls_def

lemma words_of_labels:
  "str_split (normalize_text ''Bank robbery on Main Street'') =
     [''bank'', ''robbery'', ''on'', ''main'', ''street'']"
  "str_split (normalize_text ''robbery at main street bank'') =
     [''robbery'', ''at'', ''main'', ''street'', ''bank'']"
  "str_split (normalize_text ''John Doe'') = [''john'', ''doe'']"
  "str_split (normalize_text ''jane doe'') = [''jane'', ''doe'']"
  by (simp_all add: text_defs)

lemma keys_of_labels:
  "lower ''Person'' = ''person''"
  "lower ''Event'' = ''event''"
  "lower ''John Doe'' = ''john doe''"
  "lower ''Bank robbery on Main Street'' = ''bank robbery on main street''"
  "split_key (lower ''person:jane doe'') = Some (''person'', ''jane doe'')"
  "split_key (lower ''event:robbery at main street bank'') =
     Some (''event'', ''robbery at main street bank'')"
  by (simp_all add: lower_def lower_char_def split_key_def latin1_capitals_def latin1_smalls_def)

text \<open>The score and the boost for events do not depend on the order of the two sets.\<close>

lemma score_permuted:
  assumes "mset ws1 = mset ws1'" and "mset ws2 = mset ws2'"
  shows "get_similarity_score ws1 ws2 = get_similarity_score ws1' ws2'"
proof -
  have l1: "length ws1 = length ws1'" and l2: "length ws2 = length ws2'"
    using assms mset_eq_length by blast+
  have st1: "set ws1 = set ws1'" and st2: "set ws2 = set ws2'"
    using assms mset_eq_setD by blast+
  have e1: "ws1 = [] \<longleftrightarrow> ws1' = []" and e2: "ws2 = [] \<longleftrightarrow> ws2' = []"
    using l1 l2 by auto
  have f1: "length (filter P ws1) = length (filter P ws1')" for P
    using assms(1) by (metis mset_filter mset_eq_length)
  have f2: "length (filter P ws2) = length (filter P ws2')" for P
    using assms(2) by (metis mset_filter mset_eq_length)
  have m1: "sum_list (map length ws1) = sum_list (map length ws1')"
    using assms(1) by (metis mset_map sum_mset_sum_list)
  have m2: "sum_list (map length ws2) = sum_list (map length ws2')"
    using assms(2) by (metis mset_map sum_mset_sum_list)
  show ?thesis
    unfolding get_similarity_score_def l1 l2 st1 st2 e1 e2 f1 f2 m1 m2 ..
qed

lemma boost_event_permuted:
  assumes "mset ws1 = mset ws1'" and "mset ws2 = mset ws2'"
  shows "boost ''event'' ws1 ws2 x = boost ''event'' ws1' ws2' x"
proof -
  have st1: "set ws1 = set ws1'" and st2: "set ws2 = set ws2'"
    using assms mset_eq_setD by blast+
  show ?thesis
    by (simp add: boost_def Let_def filter_empty_conv st1 st2)
qed

lemma score_robbery:
  "get_similarity_score [''bank'', ''robbery'', ''on'', ''main'', ''street'']
     [''robbery'', ''at'', ''main'', ''street'', ''bank''] = Inr (59 / 75)"
  by (simp add: get_similarity_score_def Let_def)

lemma score_doe:
  "get_similarity_score [''john'', ''doe''] [''jane'', ''doe''] = Inr (8 / 15)"
  by (simp add: get_similarity_score_def Let_def)

text \<open>
  The event of the claim is merged, whatever the iteration order of the sets: its score is
  59/75, boosted to 59/50 by the shared words \<^verbatim>\<open>robbery\<close> and \<^verbatim>\<open>street\<close>.
\<close>

lemma event_merged_in_any_order:
  assumes "\<And>ws. mset (order ws) = mset ws"
  shows "find_matching_entity order ''Event'' ''Bank robbery on Main Street''
           [(''event:robbery at main street bank'', n)] = Inr (Some n)"
proof -
  let ?l = "[''bank'', ''robbery'', ''on'', ''main'', ''street'']"
  let ?n = "[''robbery'', ''at'', ''main'', ''street'', ''bank'']"
  have a: "get_similarity_score (order ?l) (order ?n) = Inr (59 / 75)"
    using score_permuted [OF assms assms, of ?l ?n] score_robbery by simp
  have b: "boost ''event'' (order ?l) (order ?n) x = boost ''event'' ?l ?n x" for x
    using boost_event_permuted [OF assms assms] .
  have c: "boost ''event'' ?l ?n (59 / 75) = 59 / 50"
    by (simp add: boost_def Let_def)
  show ?thesis
    by (simp add: find_matching_entity_def keys_of_labels words_of_labels py_set_def a b c Let_def)
qed

text \<open>
  The person of the claim has the score 8/15, below 7/10, and is merged exactly when the
  boost applies, that is when the iteration of both sets starts with the same word.
\<close>

lemma person_merged_by_order:
  assumes "\<And>ws. mset (order ws) = mset ws"
  shows "find_matching_entity order ''Person'' ''John Doe'' [(''person:jane doe'', n)] =
           Inr (if hd (order [''john'', ''doe'']) = hd (order [''jane'', ''doe''])
                then Some n else None)"
proof -
  let ?l = "[''john'', ''doe'']"
  let ?n = "[''jane'', ''doe'']"
  have a: "get_similarity_score (order ?l) (order ?n) = Inr (8 / 15)"
    using score_permuted [OF assms assms, of ?l ?n] score_doe by simp
  have "length (order ?l) = 2" "length (order ?n) = 2"
    using mset_eq_length [OF assms [of ?l]] mset_eq_length [OF assms [of ?n]] by simp_all
  then have ne: "order ?l \<noteq> []" "order ?n \<noteq> []" by auto
  show ?thesis
    by (simp add: find_matching_entity_def keys_of_labels words_of_labels py_set_def a ne
        boost_def Let_def)
qed

text \<open>
  Claim C3. The resolver is to merge the event and not to merge the person. The event is
  merged (above). For the person the boost compares \<^verbatim>\<open>list(label_words)[0]\<close> with
  \<^verbatim>\<open>list(node_words)[0]\<close>, the first elements of two sets: in a run where the sets are
  iterated in insertion order the words are \<^verbatim>\<open>john\<close> and \<^verbatim>\<open>jane\<close> and there is
  no merge, in a run where both are iterated in the reverse order the word is \<^verbatim>\<open>doe\<close>
  twice, the score becomes 4/5 and John Doe is merged into Jane Doe.
\<close>

theorem person_merge_depends_on_set_order:
  "find_matching_entity id ''Person'' ''John Doe'' [(''person:jane doe'', n)] = Inr None
   \<and> find_matching_entity rev ''Person'' ''John Doe'' [(''person:jane doe'', n)] = Inr (Some n)"
  by (simp add: person_merged_by_order)

section \<open>The graph store: what the operations maintain\<close>

lemma update_absent: "map_of al k = None \<Longrightarrow> AList.update k v al = al @ [(k, v)]"
  by (induction al) (auto split: if_splits)

lemma assoc_unique:
  "distinct (map fst al) \<Longrightarrow> (k, a) \<in> set al \<Longrightarrow> (k, b) \<in> set al \<Longrightarrow> a = b"
  by (metis map_of_is_SomeI option.inject)

lemma graph_inv_init: "graph_inv graph_init"
  by (simp add: graph_inv_def graph_init_def)

lemma inv_node:
  "graph_inv g \<Longrightarrow> (k, a) \<in> set (nodes g) \<Longrightarrow> a < length (objects g) \<and> entity_id (objects g ! a) = k"
  by (auto simp: graph_inv_def list_all_iff)

lemma inv_edge:
  "graph_inv g \<Longrightarrow> (k, e) \<in> set (edges g) \<Longrightarrow>
   (source_id_of g e, source e) \<in> set (nodes g) \<and> (target_id_of g e, target e) \<in> set (nodes g)
   \<and> k = source_id_of g e @ ''->'' @ target_id_of g e"
  by (auto simp: graph_inv_def list_all_iff)

lemma inv_edge_bounds:
  "graph_inv g \<Longrightarrow> (k, e) \<in> set (edges g) \<Longrightarrow> source e < length (objects g) \<and> target e < length (objects g)"
  using inv_edge inv_node by blast

lemma graph_inv_add_node:
  assumes "graph_inv g"
  shows "graph_inv (fst (add_node entity g))"
proof (cases "map_of (nodes g) (entity_id entity)")
  case (Some a)
  then show ?thesis using assms by (simp add: add_node_def)
next
  case None
  let ?g = "g\<lparr>objects := objects g @ [entity], nodes := nodes g @ [(entity_id entity, length (objects g))]\<rparr>"
  have g': "fst (add_node entity g) = ?g"
    using None by (simp add: add_node_def update_absent)
  have fresh: "entity_id entity \<notin> fst ` set (nodes g)"
    using None by (simp add: map_of_eq_None_iff)
  have src: "source_id_of ?g e = source_id_of g e" "target_id_of ?g e = target_id_of g e"
    if "(k, e) \<in> set (edges g)" for k e
    using inv_edge_bounds [OF assms that] by (simp_all add: source_id_of_def target_id_of_def nth_append)
  have 1: "distinct (map fst (nodes ?g))"
    using assms fresh by (simp add: graph_inv_def)
  have 2: "distinct (map fst (edges ?g))"
    using assms by (simp add: graph_inv_def)
  have 3: "list_all (\<lambda>(node_id, a). a < length (objects ?g) \<and> entity_id (objects ?g ! a) = node_id) (nodes ?g)"
    using inv_node [OF assms] by (fastforce simp: list_all_iff nth_append)
  have 4: "list_all (\<lambda>(edge_id, e). (source_id_of ?g e, source e) \<in> set (nodes ?g)
                                \<and> (target_id_of ?g e, target e) \<in> set (nodes ?g)
                                \<and> edge_id = source_id_of ?g e @ ''->'' @ target_id_of ?g e) (edges ?g)"
    unfolding list_all_iff
  proof (intro ballI)
    fix p assume p: "p \<in> set (edges ?g)"
    obtain k e where ke: "p = (k, e)" by (cases p)
    with p have mem: "(k, e) \<in> set (edges g)" by simp
    from inv_edge [OF assms mem] src [OF mem] ke
    show "case p of (edge_id, e) \<Rightarrow> (source_id_of ?g e, source e) \<in> set (nodes ?g)
                                \<and> (target_id_of ?g e, target e) \<in> set (nodes ?g)
                                \<and> edge_id = source_id_of ?g e @ ''->'' @ target_id_of ?g e"
      by simp
  qed
  show ?thesis
    unfolding g' graph_inv_def using 1 2 3 4 by blast
qed


lemma graph_inv_add_edge:
  assumes "graph_inv g"
  shows "graph_inv (fst (add_edge s t rel g))"
proof (cases "map_of (nodes g) s")
  case None
  then show ?thesis using assms by (simp add: add_edge_def Let_def)
next
  case (Some sa)
  note sa = this
  show ?thesis
  proof (cases "map_of (nodes g) t")
    case None
    then show ?thesis using assms sa by (simp add: add_edge_def Let_def)
  next
    case (Some ta)
    note ta = this
    show ?thesis
    proof (cases "map_of (edges g) (s @ ''->'' @ t)")
      case (Some e)
      then show ?thesis using assms sa ta by (simp add: add_edge_def Let_def)
    next
      case None
      let ?e = "\<lparr>source = sa, target = ta, relationship = rel\<rparr>"
      let ?g = "g\<lparr>edges := edges g @ [(s @ ''->'' @ t, ?e)]\<rparr>"
      have g': "fst (add_edge s t rel g) = ?g"
        using sa ta None by (simp add: add_edge_def update_absent Let_def)
      have fresh: "s @ ''->'' @ t \<notin> fst ` set (edges g)"
        using None by (simp add: map_of_eq_None_iff)
      have ms: "(s, sa) \<in> set (nodes g)" and mt: "(t, ta) \<in> set (nodes g)"
        using sa ta by (auto dest: map_of_SomeD)
      have ids: "source_id_of g ?e = s" "target_id_of g ?e = t"
        using inv_node [OF assms ms] inv_node [OF assms mt]
        by (simp_all add: source_id_of_def target_id_of_def)
      have same: "source_id_of ?g e = source_id_of g e" "target_id_of ?g e = target_id_of g e" for e
        by (simp_all add: source_id_of_def target_id_of_def)
      have 1: "distinct (map fst (nodes ?g))"
        using assms by (simp add: graph_inv_def)
      have 2: "distinct (map fst (edges ?g))"
        using assms fresh by (simp add: graph_inv_def)
      have 3: "list_all (\<lambda>(node_id, a). a < length (objects ?g) \<and> entity_id (objects ?g ! a) = node_id) (nodes ?g)"
        using assms by (simp add: graph_inv_def)
      have 4: "list_all (\<lambda>(edge_id, e). (source_id_of ?g e, source e) \<in> set (nodes ?g)
                                \<and> (target_id_of ?g e, target e) \<in> set (nodes ?g)
                                \<and> edge_id = source_id_of ?g e @ ''->'' @ target_id_of ?g e) (edges ?g)"
        unfolding list_all_iff same
      proof (intro ballI)
        fix p assume p: "p \<in> set (edges ?g)"
        obtain k e where ke: "p = (k, e)" by (cases p)
        from p ke have "(k, e) \<in> set (edges g) \<or> (k = s @ ''->'' @ t \<and> e = ?e)" by auto
        then show "case p of (edge_id, e) \<Rightarrow> (source_id_of g e, source e) \<in> set (nodes ?g)
                                \<and> (target_id_of g e, target e) \<in> set (nodes ?g)
                                \<and> edge_id = source_id_of g e @ ''->'' @ target_id_of g e"
        proof
          assume "(k, e) \<in> set (edges g)"
          from inv_edge [OF assms this] ke show ?thesis by simp
        next
          assume "k = s @ ''->'' @ t \<and> e = ?e"
          then show ?thesis using ke ms mt ids by simp
        qed
      qed
      show ?thesis
        unfolding g' graph_inv_def using 1 2 3 4 by blast
    qed
  qed
qed

lemma graph_inv_update_node:
  assumes "graph_inv g" and "entity_id entity = node_id"
  shows "graph_inv (update_node node_id entity g)"
proof (cases "map_of (nodes g) node_id")
  case None
  then show ?thesis using assms by (simp add: update_node_def)
next
  case (Some a)
  let ?g = "g\<lparr>objects := (objects g)[a := entity]\<rparr>"
  have g': "update_node node_id entity g = ?g"
    using Some by (simp add: update_node_def)
  have ma: "(node_id, a) \<in> set (nodes g)"
    using Some by (auto dest: map_of_SomeD)
  have a: "a < length (objects g)" "entity_id (objects g ! a) = node_id"
    using inv_node [OF assms(1) ma] by simp_all
  have ids: "entity_id ((objects g)[a := entity] ! b) = entity_id (objects g ! b)"
    if "b < length (objects g)" for b
    using that a assms(2) by (cases "b = a") simp_all
  have same: "source_id_of ?g e = source_id_of g e" "target_id_of ?g e = target_id_of g e"
    if "(k, e) \<in> set (edges g)" for k e
    using inv_edge_bounds [OF assms(1) that] by (simp_all add: source_id_of_def target_id_of_def ids)
  have 3: "list_all (\<lambda>(node_id, a). a < length (objects ?g) \<and> entity_id (objects ?g ! a) = node_id) (nodes ?g)"
    using inv_node [OF assms(1)] by (auto simp: list_all_iff ids)
  have 4: "list_all (\<lambda>(edge_id, e). (source_id_of ?g e, source e) \<in> set (nodes ?g)
                                \<and> (target_id_of ?g e, target e) \<in> set (nodes ?g)
                                \<and> edge_id = source_id_of ?g e @ ''->'' @ target_id_of ?g e) (edges ?g)"
    unfolding list_all_iff
  proof (intro ballI)
    fix p assume p: "p \<in> set (edges ?g)"
    obtain k e where ke: "p = (k, e)" by (cases p)
    with p have mem: "(k, e) \<in> set (edges g)" by simp
    from inv_edge [OF assms(1) mem] same [OF mem] ke
    show "case p of (edge_id, e) \<Rightarrow> (source_id_of ?g e, source e) \<in> set (nodes ?g)
                                \<and> (target_id_of ?g e, target e) \<in> set (nodes ?g)
                                \<and> edge_id = source_id_of ?g e @ ''->'' @ target_id_of ?g e"
      by simp
  qed
  have 12: "distinct (map fst (nodes ?g))" "distinct (map fst (edges ?g))"
    using assms(1) by (simp_all add: graph_inv_def)
  show ?thesis
    unfolding g' graph_inv_def using 12 3 4 by blast
qed

lemma graph_inv_remove_node:
  assumes "graph_inv g"
  shows "graph_inv (remove_node node_id g)"
proof (cases "map_of (nodes g) node_id")
  case None
  then show ?thesis using assms by (simp add: remove_node_def)
next
  case (Some a)
  let ?keep = "\<lambda>(edge_id, e). source_id_of g e \<noteq> node_id \<and> target_id_of g e \<noteq> node_id"
  let ?g = "g\<lparr>edges := filter ?keep (edges g), nodes := AList.delete node_id (nodes g)\<rparr>"
  have g': "remove_node node_id g = ?g"
    using Some by (simp add: remove_node_def)
  have same: "source_id_of ?g e = source_id_of g e" "target_id_of ?g e = target_id_of g e" for e
    by (simp_all add: source_id_of_def target_id_of_def)
  have nodes': "set (nodes ?g) = {p \<in> set (nodes g). fst p \<noteq> node_id}"
    by (auto simp: AList.delete_eq)
  have 1: "distinct (map fst (nodes ?g))"
    using assms by (simp add: graph_inv_def distinct_delete)
  have 2: "distinct (map fst (edges ?g))"
    using assms by (simp add: graph_inv_def distinct_map_filter)
  have 3: "list_all (\<lambda>(node_id, a). a < length (objects ?g) \<and> entity_id (objects ?g ! a) = node_id) (nodes ?g)"
    using inv_node [OF assms] unfolding list_all_iff nodes' by auto
  have 4: "list_all (\<lambda>(edge_id, e). (source_id_of ?g e, source e) \<in> set (nodes ?g)
                                \<and> (target_id_of ?g e, target e) \<in> set (nodes ?g)
                                \<and> edge_id = source_id_of ?g e @ ''->'' @ target_id_of ?g e) (edges ?g)"
    unfolding list_all_iff nodes' same
  proof (intro ballI)
    fix p assume p: "p \<in> set (edges ?g)"
    obtain k e where ke: "p = (k, e)" by (cases p)
    with p have mem: "(k, e) \<in> set (edges g)"
      and keep: "source_id_of g e \<noteq> node_id" "target_id_of g e \<noteq> node_id" by auto
    from inv_edge [OF assms mem] keep ke
    show "case p of (edge_id, e) \<Rightarrow>
            (source_id_of g e, source e) \<in> {p \<in> set (nodes g). fst p \<noteq> node_id}
            \<and> (target_id_of g e, target e) \<in> {p \<in> set (nodes g). fst p \<noteq> node_id}
            \<and> edge_id = source_id_of g e @ ''->'' @ target_id_of g e"
      by simp
  qed
  show ?thesis
    unfolding g' graph_inv_def using 1 2 3 4 by blast
qed

lemma graph_inv_clear: "graph_inv (clear g)"
  by (simp add: graph_inv_def clear_def)

lemma graph_inv_apply_op: "graph_inv g \<Longrightarrow> keeps_id op \<Longrightarrow> graph_inv (apply_op op g)"
  by (cases op)
    (simp_all add: graph_inv_add_node graph_inv_add_edge graph_inv_update_node
      graph_inv_remove_node graph_inv_clear)

lemma graph_inv_apply_ops: "graph_inv g \<Longrightarrow> list_all keeps_id ops \<Longrightarrow> graph_inv (apply_ops ops g)"
  unfolding apply_ops_def
  by (induction ops arbitrary: g) (simp_all add: graph_inv_apply_op)

lemma inv_edge_ends_exist: "graph_inv g \<Longrightarrow> edge_ends_exist g"
  unfolding edge_ends_exist_def list_all_iff
  by (auto dest!: inv_edge simp: map_of_eq_None_iff image_iff) force+


lemma inv_one_edge_per_pair:
  assumes "graph_inv g"
  shows "one_edge_per_pair g"
proof -
  let ?f = "\<lambda>(edge_id, e). (source_id_of g e, target_id_of g e)"
  have d: "distinct (map fst (edges g))"
    using assms by (simp add: graph_inv_def)
  then have d': "distinct (edges g)"
    by (simp add: distinct_map)
  have "inj_on ?f (set (edges g))"
  proof (rule inj_onI)
    fix p q assume p: "p \<in> set (edges g)" and q: "q \<in> set (edges g)" and eq: "?f p = ?f q"
    obtain k e where ke: "p = (k, e)" by (cases p)
    obtain k' e' where ke': "q = (k', e')" by (cases q)
    have pk: "(k, e) \<in> set (edges g)" and qk: "(k', e') \<in> set (edges g)"
      using p q ke ke' by simp_all
    have ids: "source_id_of g e = source_id_of g e'" "target_id_of g e = target_id_of g e'"
      using eq ke ke' by simp_all
    have "k = source_id_of g e @ ''->'' @ target_id_of g e"
      using inv_edge [OF assms pk] by simp
    moreover have "k' = source_id_of g e' @ ''->'' @ target_id_of g e'"
      using inv_edge [OF assms qk] by simp
    ultimately have "k = k'" using ids by simp
    with assoc_unique [OF d] p q ke ke' show "p = q" by auto
  qed
  with d' show ?thesis
    by (simp add: one_edge_per_pair_def distinct_map)
qed

lemma add_edge_twice:
  "add_edge s t rel' (fst (add_edge s t rel g)) = add_edge s t rel g"
  by (auto simp: add_edge_def Let_def update_conv' split: option.splits)

text \<open>
  What \<^verbatim>\<open>add_edge\<close> returns: nothing, and the state as it was, when one of the two ids
  is no key of \<^verbatim>\<open>nodes\<close>; otherwise the edge stored in \<^verbatim>\<open>edges\<close> under the key
  made of the two ids, which is the edge that was there or else a new one between the two
  nodes.
\<close>

lemma add_edge_result:
  "(case map_of (nodes g) s of
        None \<Rightarrow> add_edge s t rel g = (g, None)
      | Some a \<Rightarrow>
          (case map_of (nodes g) t of
             None \<Rightarrow> add_edge s t rel g = (g, None)
           | Some b \<Rightarrow>
               snd (add_edge s t rel g) = Some (s @ ''->'' @ t)
               \<and> map_of (edges (fst (add_edge s t rel g))) (s @ ''->'' @ t) =
                   Some (case map_of (edges g) (s @ ''->'' @ t) of
                           None \<Rightarrow> \<lparr>source = a, target = b, relationship = rel\<rparr>
                         | Some e \<Rightarrow> e)))"
  by (auto simp: add_edge_def Let_def update_conv' split: option.splits)

lemma remove_node_incident:
  assumes "graph_inv g"
  shows "list_all (\<lambda>(edge_id, e). source_id_of (remove_node node_id g) e \<noteq> node_id
                                \<and> target_id_of (remove_node node_id g) e \<noteq> node_id)
           (edges (remove_node node_id g))"
proof (cases "map_of (nodes g) node_id")
  case None
  then have absent: "node_id \<notin> fst ` set (nodes g)"
    by (simp add: map_of_eq_None_iff)
  have "source_id_of g e \<noteq> node_id \<and> target_id_of g e \<noteq> node_id" if "(k, e) \<in> set (edges g)" for k e
    using inv_edge [OF assms that] absent by (metis fst_conv image_eqI)
  then show ?thesis
    using None by (auto simp: remove_node_def list_all_iff)
next
  case (Some a)
  then show ?thesis
    by (auto simp: remove_node_def list_all_iff source_id_of_def target_id_of_def)
qed

lemma remove_node_gone: "graph_inv g \<Longrightarrow> map_of (nodes (remove_node node_id g)) node_id = None"
  by (auto simp: remove_node_def delete_conv' graph_inv_def split: option.splits)

text \<open>
  Claim C5, amended. Under every sequence of \<^verbatim>\<open>add_node\<close>, \<^verbatim>\<open>add_edge\<close>,
  \<^verbatim>\<open>update_node\<close>, \<^verbatim>\<open>remove_node\<close> and \<^verbatim>\<open>clear\<close> in which every
  \<^verbatim>\<open>update_node\<close> is given an entity whose id is the id of the node: the ids at both ends
  of every edge are keys of \<^verbatim>\<open>nodes\<close> and no two edges join the same ordered pair;
  \<^verbatim>\<open>add_edge\<close> returns nothing and changes nothing when one of the two ids is no key
  of \<^verbatim>\<open>nodes\<close>, and otherwise returns the edge stored in \<^verbatim>\<open>edges\<close> under the key
  of the pair, the one that was there or else a new one between the two nodes; a
  second \<^verbatim>\<open>add_edge\<close> for the same pair returns the edge of the first and changes nothing;
  \<^verbatim>\<open>remove_node\<close> leaves no edge at the removed node; \<^verbatim>\<open>clear\<close> empties nodes and
  edges.
\<close>

theorem graph_invariant_kept:
  assumes "list_all keeps_id ops"
  shows "edge_ends_exist (apply_ops ops graph_init)
         \<and> one_edge_per_pair (apply_ops ops graph_init)
         \<and> (case map_of (nodes (apply_ops ops graph_init)) s of
                None \<Rightarrow> add_edge s t rel (apply_ops ops graph_init) = ((apply_ops ops graph_init), None)
              | Some a \<Rightarrow>
                  (case map_of (nodes (apply_ops ops graph_init)) t of
                     None \<Rightarrow> add_edge s t rel (apply_ops ops graph_init) = ((apply_ops ops graph_init), None)
                   | Some b \<Rightarrow>
                       snd (add_edge s t rel (apply_ops ops graph_init)) = Some (s @ ''->'' @ t)
                       \<and> map_of (edges (fst (add_edge s t rel (apply_ops ops graph_init)))) (s @ ''->'' @ t) =
                           Some (case map_of (edges (apply_ops ops graph_init)) (s @ ''->'' @ t) of
                                   None \<Rightarrow> \<lparr>source = a, target = b, relationship = rel\<rparr>
                                 | Some e \<Rightarrow> e)))
         \<and> add_edge s t rel' (fst (add_edge s t rel (apply_ops ops graph_init))) =
             add_edge s t rel (apply_ops ops graph_init)
         \<and> list_all (\<lambda>(edge_id, e).
                source_id_of (remove_node node_id (apply_ops ops graph_init)) e \<noteq> node_id
                \<and> target_id_of (remove_node node_id (apply_ops ops graph_init)) e \<noteq> node_id)
             (edges (remove_node node_id (apply_ops ops graph_init)))
         \<and> map_of (nodes (remove_node node_id (apply_ops ops graph_init))) node_id = None
         \<and> nodes (clear (apply_ops ops graph_init)) = []
         \<and> edges (clear (apply_ops ops graph_init)) = []"
proof -
  have inv: "graph_inv (apply_ops ops graph_init)"
    using graph_inv_apply_ops [OF graph_inv_init assms] .
  show ?thesis
    using inv_edge_ends_exist [OF inv] inv_one_edge_per_pair [OF inv]
      add_edge_result [where g = "apply_ops ops graph_init"] add_edge_twice
      remove_node_incident [OF inv] remove_node_gone [OF inv]
    by (simp add: clear_def)
qed

lemmas graph_defs = apply_ops_def add_node_def add_edge_def update_node_def remove_node_def
  clear_def graph_init_def source_id_of_def target_id_of_def Let_def

lemma kept_ids_state:
  "apply_ops kept_ids graph_init =
     \<lparr>objects = [ann, bob\<lparr>entity_label := ''Robert''\<rparr>, cat],
      nodes = [(''a'', 0), (''b'', 1), (''c'', 2)],
      edges = [(''a->b'', \<lparr>source = 0, target = 1, relationship = ''KNOWS''\<rparr>),
               (''c->a'', \<lparr>source = 2, target = 0, relationship = ''SAW''\<rparr>)]\<rparr>"
  by (simp add: graph_defs kept_ids_def ann_def bob_def cat_def)

text \<open>Removing a node with two incident edges removes both.\<close>

lemma remove_node_two_edges:
  "remove_node ''a'' (apply_ops kept_ids graph_init) =
     \<lparr>objects = [ann, bob\<lparr>entity_label := ''Robert''\<rparr>, cat],
      nodes = [(''b'', 1), (''c'', 2)], edges = []\<rparr>"
  by (simp add: kept_ids_state remove_node_def source_id_of_def target_id_of_def
      ann_def bob_def cat_def)

theorem graph_invariant_kept_witness:
  "list_all keeps_id kept_ids
   \<and> edge_ends_exist (apply_ops kept_ids graph_init)
   \<and> one_edge_per_pair (apply_ops kept_ids graph_init)
   \<and> (case map_of (nodes (apply_ops kept_ids graph_init)) ''a'' of
          None \<Rightarrow> add_edge ''a'' ''b'' ''KNOWS'' (apply_ops kept_ids graph_init) = ((apply_ops kept_ids graph_init), None)
        | Some a \<Rightarrow>
            (case map_of (nodes (apply_ops kept_ids graph_init)) ''b'' of
               None \<Rightarrow> add_edge ''a'' ''b'' ''KNOWS'' (apply_ops kept_ids graph_init) = ((apply_ops kept_ids graph_init), None)
             | Some b \<Rightarrow>
                 snd (add_edge ''a'' ''b'' ''KNOWS'' (apply_ops kept_ids graph_init)) = Some (''a'' @ ''->'' @ ''b'')
                 \<and> map_of (edges (fst (add_edge ''a'' ''b'' ''KNOWS'' (apply_ops kept_ids graph_init)))) (''a'' @ ''->'' @ ''b'') =
                     Some (case map_of (edges (apply_ops kept_ids graph_init)) (''a'' @ ''->'' @ ''b'') of
                             None \<Rightarrow> \<lparr>source = a, target = b, relationship = ''KNOWS''\<rparr>
                           | Some e \<Rightarrow> e)))
   \<and> add_edge ''a'' ''b'' ''LIKES'' (fst (add_edge ''a'' ''b'' ''KNOWS'' (apply_ops kept_ids graph_init))) =
       add_edge ''a'' ''b'' ''KNOWS'' (apply_ops kept_ids graph_init)
   \<and> list_all (\<lambda>(edge_id, e).
          source_id_of (remove_node ''a'' (apply_ops kept_ids graph_init)) e \<noteq> ''a''
          \<and> target_id_of (remove_node ''a'' (apply_ops kept_ids graph_init)) e \<noteq> ''a'')
       (edges (remove_node ''a'' (apply_ops kept_ids graph_init)))
   \<and> map_of (nodes (remove_node ''a'' (apply_ops kept_ids graph_init))) ''a'' = None
   \<and> nodes (clear (apply_ops kept_ids graph_init)) = []
   \<and> edges (clear (apply_ops kept_ids graph_init)) = []"
proof (rule conjI)
  show h: "list_all keeps_id kept_ids"
    by (simp add: kept_ids_def bob_def)
  show "edge_ends_exist (apply_ops kept_ids graph_init)
   \<and> one_edge_per_pair (apply_ops kept_ids graph_init)
   \<and> (case map_of (nodes (apply_ops kept_ids graph_init)) ''a'' of
          None \<Rightarrow> add_edge ''a'' ''b'' ''KNOWS'' (apply_ops kept_ids graph_init) = ((apply_ops kept_ids graph_init), None)
        | Some a \<Rightarrow>
            (case map_of (nodes (apply_ops kept_ids graph_init)) ''b'' of
               None \<Rightarrow> add_edge ''a'' ''b'' ''KNOWS'' (apply_ops kept_ids graph_init) = ((apply_ops kept_ids graph_init), None)
             | Some b \<Rightarrow>
                 snd (add_edge ''a'' ''b'' ''KNOWS'' (apply_ops kept_ids graph_init)) = Some (''a'' @ ''->'' @ ''b'')
                 \<and> map_of (edges (fst (add_edge ''a'' ''b'' ''KNOWS'' (apply_ops kept_ids graph_init)))) (''a'' @ ''->'' @ ''b'') =
                     Some (case map_of (edges (apply_ops kept_ids graph_init)) (''a'' @ ''->'' @ ''b'') of
                             None \<Rightarrow> \<lparr>source = a, target = b, relationship = ''KNOWS''\<rparr>
                           | Some e \<Rightarrow> e)))
   \<and> add_edge ''a'' ''b'' ''LIKES'' (fst (add_edge ''a'' ''b'' ''KNOWS'' (apply_ops kept_ids graph_init))) =
       add_edge ''a'' ''b'' ''KNOWS'' (apply_ops kept_ids graph_init)
   \<and> list_all (\<lambda>(edge_id, e).
          source_id_of (remove_node ''a'' (apply_ops kept_ids graph_init)) e \<noteq> ''a''
          \<and> target_id_of (remove_node ''a'' (apply_ops kept_ids graph_init)) e \<noteq> ''a'')
       (edges (remove_node ''a'' (apply_ops kept_ids graph_init)))
   \<and> map_of (nodes (remove_node ''a'' (apply_ops kept_ids graph_init))) ''a'' = None
   \<and> nodes (clear (apply_ops kept_ids graph_init)) = []
   \<and> edges (clear (apply_ops kept_ids graph_init)) = []"
    by (rule graph_invariant_kept [OF h])
qed

text \<open>
  Claim C5 as stated fails when \<^verbatim>\<open>update_node\<close> puts an entity with another id into a
  node: the node \<^verbatim>\<open>a\<close> then holds the entity \<^verbatim>\<open>c\<close>, \<^verbatim>\<open>remove_node("a")\<close> looks for
  edges whose end has the id \<^verbatim>\<open>a\<close>, finds none and removes the node, and the edge
  \<^verbatim>\<open>a->b\<close> stays with an end that is no node any more.
\<close>

theorem graph_invariant_broken_by_update:
  "apply_ops changed_id graph_init =
     \<lparr>objects = [cat, bob], nodes = [(''b'', 1)],
      edges = [(''a->b'', \<lparr>source = 0, target = 1, relationship = ''KNOWS''\<rparr>)]\<rparr>
   \<and> \<not> edge_ends_exist (apply_ops changed_id graph_init)"
  by (simp add: graph_defs edge_ends_exist_def changed_id_def ann_def bob_def cat_def)

end
